theory Spec2Isabelle
  imports Complex_Main
begin

section \<open>Python values, exceptions and the telemetry mapping\<close>

text \<open>
  Both reward functions of the repository (\<^verbatim>\<open>carthing.py\<close>, the additive variant, and
  \<^verbatim>\<open>carthing2.py\<close>, the weighted variant) read a dictionary \<^verbatim>\<open>params\<close> and compute with
  Python floats. Floats are modelled as exact reals, so rounding, overflow and NaN are
  outside the model; the exceptions the code can raise on a numeric dictionary are values
  of \<open>py_error\<close> (\<^verbatim>\<open>NameError\<close> is what reading an unset module variable raises). A dictionary value is a number or a bool (a bool is a number in
  Python: \<^verbatim>\<open>True == 1\<close>).
\<close>

datatype py_error = KeyError string | NameError string | ZeroDivisionError | IndexError

datatype pyval = PyBool bool | PyNum real

type_synonym params = "string \<rightharpoonup> pyval"

fun py_float :: "pyval \<Rightarrow> real" where
  "py_float (PyNum r) = r"
| "py_float (PyBool b) = (if b then 1 else 0)"

fun py_truthy :: "pyval \<Rightarrow> bool" where
  "py_truthy (PyBool b) = b"
| "py_truthy (PyNum r) = (r \<noteq> 0)"

text \<open>Sequencing of computations that may raise: the first exception propagates.\<close>

definition thenE :: "py_error + 'a \<Rightarrow> ('a \<Rightarrow> py_error + 'b) \<Rightarrow> py_error + 'b" where
  "thenE m f = (case m of Inl e \<Rightarrow> Inl e | Inr v \<Rightarrow> f v)"

text \<open>\<^verbatim>\<open>params[key]\<close>: a missing key raises \<^verbatim>\<open>KeyError(key)\<close>.\<close>

definition getitem :: "params \<Rightarrow> string \<Rightarrow> py_error + pyval" where
  "getitem params key = (case params key of None \<Rightarrow> Inl (KeyError key) | Some v \<Rightarrow> Inr v)"

definition getnum :: "params \<Rightarrow> string \<Rightarrow> py_error + real" where
  "getnum params key = thenE (getitem params key) (\<lambda>v. Inr (py_float v))"

text \<open>\<^verbatim>\<open>a / b\<close> on floats raises \<^verbatim>\<open>ZeroDivisionError\<close> when \<^verbatim>\<open>b\<close> is zero.\<close>

definition py_div :: "real \<Rightarrow> real \<Rightarrow> py_error + real" where
  "py_div a b = (if b = 0 then Inl ZeroDivisionError else Inr (a / b))"

text \<open>\<^verbatim>\<open>xs[i]\<close>: a negative index counts from the end, an index out of range raises.\<close>

definition py_index :: "'a list \<Rightarrow> int \<Rightarrow> py_error + 'a" where
  "py_index xs i =
     (if 0 \<le> i \<and> i < int (length xs) then Inr (xs ! nat i)
      else if i < 0 \<and> - int (length xs) \<le> i then Inr (xs ! nat (int (length xs) + i))
      else Inl IndexError)"

text \<open>
  \<^verbatim>\<open>a % b\<close> on floats, for a positive \<^verbatim>\<open>b\<close>: the remainder with the sign of the divisor,
  \<open>a - b * floor (a / b)\<close>. The code only uses it with \<open>b = 2 * pi\<close>.
\<close>

definition py_fmod :: "real \<Rightarrow> real \<Rightarrow> real" where
  "py_fmod a b = a - b * of_int \<lfloor>a / b\<rfloor>"

definition degrees :: "real \<Rightarrow> real" where
  "degrees r = r * 180 / pi"

definition radians :: "real \<Rightarrow> real" where
  "radians d = d * pi / 180"

text \<open>
  \<^verbatim>\<open>math.atan2(y, x)\<close>, the angle of the point \<open>(x, y)\<close> in \<open>(-pi, pi]\<close>, by the usual
  case distinction on the quadrant (the library function itself is not part of the
  repository).
\<close>

definition atan2 :: "real \<Rightarrow> real \<Rightarrow> real" where
  "atan2 y x =
     (if 0 < x then arctan (y / x)
      else if x < 0 then (if 0 \<le> y then arctan (y / x) + pi else arctan (y / x) - pi)
      else if 0 < y then pi / 2
      else if y < 0 then - (pi / 2)
      else 0)"

text \<open>
  \<^verbatim>\<open>range(a, b)\<close> as the list of its integers.
\<close>

definition py_range :: "int \<Rightarrow> int \<Rightarrow> int list" where
  "py_range a b = [a..b - 1]"

section \<open>Coordinates and waypoints\<close>

text \<open>
  A coordinate is a Python list whose elements 0 and 1 are read; a waypoint of
  \<^verbatim>\<open>carthing.py\<close> has a third element, the target speed. The car position \<^verbatim>\<open>[x, y]\<close> and the
  waypoints \<^verbatim>\<open>[x, y]\<close> of \<^verbatim>\<open>carthing2.py\<close> are plain coordinates.
\<close>

record coor =
  coord_0 :: real
  coord_1 :: real

record waypoint = coor +
  coord_2 :: real

definition WP2 :: "real \<Rightarrow> real \<Rightarrow> coor" where
  "WP2 a b = \<lparr>coord_0 = a, coord_1 = b\<rparr>"

definition WP3 :: "real \<Rightarrow> real \<Rightarrow> real \<Rightarrow> waypoint" where
  "WP3 a b c = \<lparr>coord_0 = a, coord_1 = b, coord_2 = c\<rparr>"

text \<open>\<^verbatim>\<open>float("inf")\<close> or a float: the running minimum of \<^verbatim>\<open>get_distance_list\<close>.\<close>

datatype min_bound = PosInf | Finite real

fun less_bound :: "real \<Rightarrow> min_bound \<Rightarrow> bool" where
  "less_bound d PosInf = True"
| "less_bound d (Finite m) = (d < m)"

section \<open>Helpers shared by both variants\<close>

definition get_distance :: "'a coor_scheme \<Rightarrow> 'b coor_scheme \<Rightarrow> real" where
  "get_distance coor1 coor2 =
     sqrt ((coord_0 coor1 - coord_0 coor2) * (coord_0 coor1 - coord_0 coor2)
         + (coord_1 coor1 - coord_1 coor2) * (coord_1 coor1 - coord_1 coor2))"

definition get_difference_degrees :: "real \<Rightarrow> real \<Rightarrow> real" where
  "get_difference_degrees angle1 angle2 =
     (let diff = py_fmod (angle1 - angle2) (2 * pi);
          diff = (if diff \<ge> pi then diff - 2 * pi else diff)
      in degrees diff)"

text \<open>
  The loop of \<^verbatim>\<open>get_distance_list\<close> over \<^verbatim>\<open>enumerate(waypoints)\<close>: \<open>i\<close> is the index of the
  next waypoint, the other arguments are the loop's variables.
\<close>

fun get_distance_loop ::
  "'a coor_scheme \<Rightarrow> int \<Rightarrow> 'b coor_scheme list \<Rightarrow> real list \<Rightarrow> min_bound \<Rightarrow> int
    \<Rightarrow> real list \<times> min_bound \<times> int" where
  "get_distance_loop car i [] dist_list min_dist min_idx = (dist_list, min_dist, min_idx)"
| "get_distance_loop car i (waypoint # rest) dist_list min_dist min_idx =
     (let dist = get_distance car waypoint in
      if less_bound dist min_dist
      then get_distance_loop car (i + 1) rest (dist_list @ [dist]) (Finite dist) i
      else get_distance_loop car (i + 1) rest (dist_list @ [dist]) min_dist min_idx)"

definition get_distance_list ::
  "'a coor_scheme \<Rightarrow> 'b coor_scheme list \<Rightarrow> real list \<times> min_bound \<times> int \<times> int" where
  "get_distance_list car waypoints =
     (case get_distance_loop car 0 waypoints [] PosInf (- 1) of
        (dist_list, min_dist, min_idx) \<Rightarrow> (dist_list, min_dist, min_idx, int (length waypoints)))"

text \<open>
  The loop of \<^verbatim>\<open>draw_ray\<close> over the offsets still to visit; \<open>target_idx\<close> is the loop's
  variable, \<^verbatim>\<open>break\<close> returns at once.
\<close>

fun draw_ray_loop ::
  "real list \<Rightarrow> real \<Rightarrow> int \<Rightarrow> int \<Rightarrow> int \<Rightarrow> int list \<Rightarrow> py_error + int" where
  "draw_ray_loop dist_list target_dist min_idx len target_idx [] = Inr target_idx"
| "draw_ray_loop dist_list target_dist min_idx len target_idx (i # rest) =
     (let index = (min_idx + i) mod len in
      thenE (py_index dist_list index) (\<lambda>d.
        if d \<ge> target_dist then Inr index
        else draw_ray_loop dist_list target_dist min_idx len index rest))"

definition draw_ray ::
  "params \<Rightarrow> 'b coor_scheme list \<Rightarrow> real \<Rightarrow> py_error + (int \<times> int)" where
  "draw_ray params waypoints sight =
     thenE (getnum params ''x'') (\<lambda>x.
     thenE (getnum params ''y'') (\<lambda>y.
     let car = \<lparr>coord_0 = x, coord_1 = y\<rparr> in
     thenE (getnum params ''track_width'') (\<lambda>track_width.
     let target_dist = track_width * sight in
     case get_distance_list car waypoints of (dist_list, _, min_idx, len) \<Rightarrow>
     let target_idx = min_idx in
     thenE (draw_ray_loop dist_list target_dist min_idx len target_idx
              (py_range 5 \<lfloor>real_of_int len * 0.1\<rfloor>)) (\<lambda>target_idx.
     Inr (target_idx, min_idx)))))"

section \<open>The additive variant (carthing.py)\<close>

definition reward_max :: real where
  "reward_max = 5.0"

definition reward_min :: real where
  "reward_min = 0.001"

definition get_racing_track :: "waypoint list" where
  "get_racing_track = [
    WP3 (1.17885) (- 0.02819) 4,
    WP3 (0.97428) (0.19281) 4,
    WP3 (0.77039) (0.41465) 4,
    WP3 (0.56694) (0.63702) 4,
    WP3 (0.36371) (0.85965) 3.5,
    WP3 (0.16067) (1.08251) 3.5,
    WP3 (- 0.04223) (1.30555) 3.5,
    WP3 (- 0.24496) (1.5288) 3,
    WP3 (- 0.4475) (1.75228) 3,
    WP3 (- 0.64984) (1.97599) 3,
    WP3 (- 0.85192) (2.20003) 2.5,
    WP3 (- 1.05344) (2.42472) 2.5,
    WP3 (- 1.25411) (2.6504) 2.22318,
    WP3 (- 1.45594) (2.87373) 1.987,
    WP3 (- 1.66165) (3.09018) 1.80388,
    WP3 (- 1.87335) (3.29467) 1.5668,
    WP3 (- 2.09255) (3.48153) 1.3907,
    WP3 (- 2.31965) (3.64525) 1.23406,
    WP3 (- 2.55394) (3.78055) 1.09776,
    WP3 (- 2.79366) (3.8824) 1.09776,
    WP3 (- 3.03592) (3.94668) 1.09776,
    WP3 (- 3.27641) (3.96537) 1.09776,
    WP3 (- 3.50797) (3.93144) 1.0977,
    WP3 (- 3.71896) (3.83638) 1.0977,
    WP3 (- 3.88698) (3.67145) 1.21977,
    WP3 (- 4.0029) (3.46131) 1.35655,
    WP3 (- 4.06619) (3.23045) 1.47171,
    WP3 (- 4.08237) (2.99662) 1.61364,
    WP3 (- 4.06132) (2.76898) 1.74679,
    WP3 (- 4.01102) (2.55088) 1.89145,
    WP3 (- 3.93766) (2.34296) 1.55965,
    WP3 (- 3.84538) (2.14508) 1.26288,
    WP3 (- 3.73745) (1.95666) 1.26288,
    WP3 (- 3.61589) (1.77732) 1.26288,
    WP3 (- 3.46559) (1.58986) 1.26288,
    WP3 (- 3.3348) (1.39364) 1.26288,
    WP3 (- 3.24176) (1.18168) 1.2628,
    WP3 (- 3.20714) (0.94929) 1.45877,
    WP3 (- 3.22122) (0.70365) 1.73181,
    WP3 (- 3.27557) (0.44914) 2.10352,
    WP3 (- 3.36195) (0.1884) 2.5,
    WP3 (- 3.47031) (- 0.07663) 2.5,
    WP3 (- 3.59276) (- 0.35194) 2.5,
    WP3 (- 3.70757) (- 0.6305) 2.45447,
    WP3 (- 3.81255) (- 0.91281) 2.26315,
    WP3 (- 3.90467) (- 1.19896) 2.10558,
    WP3 (- 3.98055) (- 1.48823) 1.95433,
    WP3 (- 4.03675) (- 1.77896) 1.8058,
    WP3 (- 4.07006) (- 2.06871) 1.61297,
    WP3 (- 4.07796) (- 2.35438) 1.42626,
    WP3 (- 4.05785) (- 2.63218) 1.27572,
    WP3 (- 4.00829) (- 2.89786) 1.1279,
    WP3 (- 3.92841) (- 3.14667) 1.0,
    WP3 (- 3.81797) (- 3.37333) 1.0,
    WP3 (- 3.67586) (- 3.56992) 1.0,
    WP3 (- 3.50254) (- 3.72585) 1.0,
    WP3 (- 3.30246) (- 3.82919) 1.0,
    WP3 (- 3.0846) (- 3.8639) 1.0,
    WP3 (- 2.86921) (- 3.80985) 1.1893,
    WP3 (- 2.67215) (- 3.69283) 1.31765,
    WP3 (- 2.50144) (- 3.5234) 1.47389,
    WP3 (- 2.36194) (- 3.31176) 1.65465,
    WP3 (- 2.25566) (- 3.0676) 1.76875,
    WP3 (- 2.18244) (- 2.79938) 1.61197,
    WP3 (- 2.14008) (- 2.51429) 1.4814,
    WP3 (- 2.127) (- 2.22076) 1.30142,
    WP3 (- 2.08005) (- 1.94006) 1.17403,
    WP3 (- 1.99865) (- 1.67826) 1.0412,
    WP3 (- 1.88265) (- 1.44243) 1.0412,
    WP3 (- 1.73341) (- 1.24052) 1.04125,
    WP3 (- 1.55471) (- 1.08023) 1.04125,
    WP3 (- 1.35065) (- 0.97424) 1.04125,
    WP3 (- 1.13142) (- 0.93427) 1.04125,
    WP3 (- 0.91566) (- 0.97615) 1.16222,
    WP3 (- 0.71978) (- 1.08038) 1.27537,
    WP3 (- 0.55152) (- 1.2341) 1.38928,
    WP3 (- 0.41548) (- 1.42792) 1.52292,
    WP3 (- 0.31396) (- 1.65377) 1.69263,
    WP3 (- 0.2468) (- 1.90419) 1.5618,
    WP3 (- 0.21119) (- 2.17228) 1.2590,
    WP3 (- 0.2013) (- 2.45172) 1.05429,
    WP3 (- 0.21099) (- 2.73807) 1.05429,
    WP3 (- 0.23212) (- 3.0039) 1.05429,
    WP3 (- 0.22807) (- 3.25729) 1.05429,
    WP3 (- 0.18217) (- 3.48688) 1.05429,
    WP3 (- 0.08656) (- 3.68183) 1.05429,
    WP3 (0.06315) (- 3.82604) 1.07185,
    WP3 (0.25374) (- 3.91471) 1.19,
    WP3 (0.47108) (- 3.94962) 1.3079,
    WP3 (0.70518) (- 3.9303) 1.44545,
    WP3 (0.9466) (- 3.85721) 1.5091,
    WP3 (1.18401) (- 3.72675) 1.5792,
    WP3 (1.43537) (- 3.64681) 1.54486,
    WP3 (1.6916) (- 3.61315) 1.47565,
    WP3 (1.9489) (- 3.62299) 1.37028,
    WP3 (2.20403) (- 3.67601) 1.2804,
    WP3 (2.45328) (- 3.77354) 1.202,
    WP3 (2.69005) (- 3.92338) 1.02595,
    WP3 (2.94411) (- 4.01746) 1.02595,
    WP3 (3.19298) (- 4.05176) 1.02595,
    WP3 (3.42603) (- 4.0289) 1.02595,
    WP3 (3.63458) (- 3.95263) 1.02595,
    WP3 (3.81) (- 3.82567) 1.02595,
    WP3 (3.92786) (- 3.64044) 1.13441,
    WP3 (3.98445) (- 3.41809) 1.27721,
    WP3 (3.98138) (- 3.17723) 1.41599,
    WP3 (3.92288) (- 2.9333) 1.576,
    WP3 (3.81718) (- 2.69741) 1.76607,
    WP3 (3.67368) (- 2.47517) 2.00827,
    WP3 (3.50131) (- 2.26778) 2.37831,
    WP3 (3.30856) (- 2.07314) 3,
    WP3 (3.10167) (- 1.88845) 3,
    WP3 (2.88408) (- 1.71115) 3.5,
    WP3 (2.65936) (- 1.51577) 3.5,
    WP3 (2.43924) (- 1.31391) 4,
    WP3 (2.22303) (- 1.10716) 4,
    WP3 (2.01001) (- 0.89649) 4,
    WP3 (1.79956) (- 0.68266) 4,
    WP3 (1.59116) (- 0.46633) 4,
    WP3 (1.38438) (- 0.24802) 4]"

definition score_steering :: "params \<Rightarrow> 'a coor_scheme \<Rightarrow> py_error + real" where
  "score_steering params target =
     thenE (getnum params ''x'') (\<lambda>x.
     thenE (getnum params ''y'') (\<lambda>y.
     let car = \<lparr>coord_0 = x, coord_1 = y\<rparr>;
         target_angle = atan2 (coord_1 target - coord_1 car) (coord_0 target - coord_0 car) in
     thenE (getnum params ''heading'') (\<lambda>heading.
     thenE (getnum params ''steering_angle'') (\<lambda>steering.
     let target_steering = get_difference_degrees target_angle (radians heading);
         target_steering = max (- 30) (min 30 target_steering);
         diff = \<bar>steering - target_steering\<bar>;
         score = (if diff > 30 then 0.001 else 1.001 - diff / 30)
     in Inr (max (min score reward_max) reward_min)))))"

definition score_speed :: "params \<Rightarrow> waypoint \<Rightarrow> py_error + real" where
  "score_speed params target =
     thenE (getnum params ''speed'') (\<lambda>speed.
     let diff = \<bar>speed - coord_2 target\<bar>;
         score = 1.001 - diff / 3
     in Inr (max (min score reward_max) reward_min))"

definition score_speed_steering :: "params \<Rightarrow> py_error + real" where
  "score_speed_steering params =
     thenE (getnum params ''speed'') (\<lambda>speed.
     thenE (getnum params ''steering_angle'') (\<lambda>steering.
     let steering_angle = \<bar>steering\<bar>;
         max_speed = 4.0;
         max_steering = 30.0;
         normalized_speed = speed / max_speed;
         normalized_steering = steering_angle / max_steering;
         reward = (if speed \<ge> 2.5 then 1.0 - normalized_steering * normalized_speed
                   else if speed \<le> 1.5 then 1.0 + normalized_steering * (1.0 - normalized_speed)
                   else 1.0 - normalized_steering / 2.0)
     in Inr (max reward_min (min reward reward_max))))"

definition score_center :: "params \<Rightarrow> 'a coor_scheme \<Rightarrow> py_error + real" where
  "score_center params target =
     thenE (getnum params ''track_width'') (\<lambda>track_width.
     thenE (getnum params ''x'') (\<lambda>x.
     thenE (getnum params ''y'') (\<lambda>y.
     let car = \<lparr>coord_0 = x, coord_1 = y\<rparr>;
         center = \<lparr>coord_0 = coord_0 target, coord_1 = coord_1 target\<rparr>;
         dist = get_distance car center in
     thenE (py_div \<bar>track_width - dist\<bar> track_width) (\<lambda>q.
     let score = 1.001 - q
     in Inr (max (min score reward_max) reward_min)))))"

text \<open>
  \<^verbatim>\<open>score_progress\<close> reads and assigns the module's global \<^verbatim>\<open>last_progress\<close>: the model takes
  its value and returns the new one beside the result. A raised \<^verbatim>\<open>KeyError\<close> leaves it as
  it was.
\<close>

definition score_progress :: "params \<Rightarrow> real \<Rightarrow> (py_error + real) \<times> real" where
  "score_progress params last_progress =
     (case getnum params ''progress'' of
        Inl e \<Rightarrow> (Inl e, last_progress)
      | Inr progress \<Rightarrow>
          (let score = (progress - last_progress) * reward_max;
               last_progress = progress
           in (Inr (max score reward_min), last_progress)))"

text \<open>
  \<^verbatim>\<open>reward_function\<close> of \<^verbatim>\<open>carthing.py\<close>, with \<^verbatim>\<open>last_progress\<close> passed through. Only
  \<^verbatim>\<open>score_progress\<close> touches the global, so the calls before it are sequenced with
  \<open>thenE\<close> and the global is returned unchanged when one of them raises.
\<close>

definition reward_function :: "params \<Rightarrow> real \<Rightarrow> (py_error + real) \<times> real" where
  "reward_function params last_progress =
     (let reward = 0.0;
          line_x0 = 7; line_x1 = - 6;
          line_y0 = - 7; line_y1 = 6;
          m = (line_y1 - line_y0) / (line_x1 - line_x0);
          before =
            thenE (getnum params ''x'') (\<lambda>x.
            let line_y_at_car_x = m * x + line_y0 - m * line_x0 in
            thenE (getnum params ''y'') (\<lambda>y.
            let sight = (if y < line_y_at_car_x then 0.25 else 0.5);
                racing_track = get_racing_track in
            thenE (draw_ray params racing_track sight) (\<lambda>(target_idx, min_idx).
            thenE (py_index racing_track target_idx) (\<lambda>target.
            thenE (score_steering params target) (\<lambda>s1.
            let reward = reward + s1 in
            thenE (py_index racing_track min_idx) (\<lambda>nearest.
            thenE (score_speed params nearest) (\<lambda>s2.
            let reward = reward + s2 in
            thenE (py_index racing_track min_idx) (\<lambda>nearest.
            thenE (score_center params nearest) (\<lambda>s3.
            let reward = reward + s3 in
            Inr reward)))))))))
      in case before of
           Inl e \<Rightarrow> (Inl e, last_progress)
         | Inr reward \<Rightarrow>
             (case score_progress params last_progress of
                (Inl e, last_progress) \<Rightarrow> (Inl e, last_progress)
              | (Inr s4, last_progress) \<Rightarrow>
                  (let reward = reward + s4 in
                   case score_speed_steering params of
                     Inl e \<Rightarrow> (Inl e, last_progress)
                   | Inr s5 \<Rightarrow> (let reward = reward + s5 in (Inr reward, last_progress)))))"

section \<open>The weighted variant (carthing2.py)\<close>

definition reward_max2 :: real where
  "reward_max2 = 10.0"

definition reward_min2 :: real where
  "reward_min2 = 0.001"

definition get_racing_track2 :: "coor list" where
  "get_racing_track2 = [
    WP2 (1.17885) (- 0.02819),
    WP2 (0.97428) (0.19281),
    WP2 (0.77039) (0.41465),
    WP2 (0.56694) (0.63702),
    WP2 (0.36371) (0.85965),
    WP2 (0.16067) (1.08251),
    WP2 (- 0.04223) (1.30555),
    WP2 (- 0.24496) (1.5288),
    WP2 (- 0.4475) (1.75228),
    WP2 (- 0.64984) (1.97599),
    WP2 (- 0.85192) (2.20003),
    WP2 (- 1.05344) (2.42472),
    WP2 (- 1.25411) (2.6504),
    WP2 (- 1.45594) (2.87373),
    WP2 (- 1.66165) (3.09018),
    WP2 (- 1.87335) (3.29467),
    WP2 (- 2.09255) (3.48153),
    WP2 (- 2.31965) (3.64525),
    WP2 (- 2.55394) (3.78055),
    WP2 (- 2.79366) (3.8824),
    WP2 (- 3.03592) (3.94668),
    WP2 (- 3.27641) (3.96537),
    WP2 (- 3.50797) (3.93144),
    WP2 (- 3.71896) (3.83638),
    WP2 (- 3.88698) (3.67145),
    WP2 (- 4.0029) (3.46131),
    WP2 (- 4.06619) (3.23045),
    WP2 (- 4.08237) (2.99662),
    WP2 (- 4.06132) (2.76898),
    WP2 (- 4.01102) (2.55088),
    WP2 (- 3.93766) (2.34296),
    WP2 (- 3.84538) (2.14508),
    WP2 (- 3.73745) (1.95666),
    WP2 (- 3.61589) (1.77732),
    WP2 (- 3.46559) (1.58986),
    WP2 (- 3.3348) (1.39364),
    WP2 (- 3.24176) (1.18168),
    WP2 (- 3.20714) (0.94929),
    WP2 (- 3.22122) (0.70365),
    WP2 (- 3.27557) (0.44914),
    WP2 (- 3.36195) (0.1884),
    WP2 (- 3.47031) (- 0.07663),
    WP2 (- 3.59276) (- 0.35194),
    WP2 (- 3.70757) (- 0.6305),
    WP2 (- 3.81255) (- 0.91281),
    WP2 (- 3.90467) (- 1.19896),
    WP2 (- 3.98055) (- 1.48823),
    WP2 (- 4.03675) (- 1.77896),
    WP2 (- 4.07006) (- 2.06871),
    WP2 (- 4.07796) (- 2.35438),
    WP2 (- 4.05785) (- 2.63218),
    WP2 (- 4.00829) (- 2.89786),
    WP2 (- 3.92841) (- 3.14667),
    WP2 (- 3.81797) (- 3.37333),
    WP2 (- 3.67586) (- 3.56992),
    WP2 (- 3.50254) (- 3.72585),
    WP2 (- 3.30246) (- 3.82919),
    WP2 (- 3.0846) (- 3.8639),
    WP2 (- 2.86921) (- 3.80985),
    WP2 (- 2.67215) (- 3.69283),
    WP2 (- 2.50144) (- 3.5234),
    WP2 (- 2.36194) (- 3.31176),
    WP2 (- 2.25566) (- 3.0676),
    WP2 (- 2.18244) (- 2.79938),
    WP2 (- 2.14008) (- 2.51429),
    WP2 (- 2.127) (- 2.22076),
    WP2 (- 2.08005) (- 1.94006),
    WP2 (- 1.99865) (- 1.67826),
    WP2 (- 1.88265) (- 1.44243),
    WP2 (- 1.73341) (- 1.24052),
    WP2 (- 1.55471) (- 1.08023),
    WP2 (- 1.35065) (- 0.97424),
    WP2 (- 1.13142) (- 0.93427),
    WP2 (- 0.91566) (- 0.97615),
    WP2 (- 0.71978) (- 1.08038),
    WP2 (- 0.55152) (- 1.2341),
    WP2 (- 0.41548) (- 1.42792),
    WP2 (- 0.31396) (- 1.65377),
    WP2 (- 0.2468) (- 1.90419),
    WP2 (- 0.21119) (- 2.17228),
    WP2 (- 0.2013) (- 2.45172),
    WP2 (- 0.21099) (- 2.73807),
    WP2 (- 0.23212) (- 3.0039),
    WP2 (- 0.22807) (- 3.25729),
    WP2 (- 0.18217) (- 3.48688),
    WP2 (- 0.08656) (- 3.68183),
    WP2 (0.06315) (- 3.82604),
    WP2 (0.25374) (- 3.91471),
    WP2 (0.47108) (- 3.94962),
    WP2 (0.70518) (- 3.9303),
    WP2 (0.9466) (- 3.85721),
    WP2 (1.18401) (- 3.72675),
    WP2 (1.43537) (- 3.64681),
    WP2 (1.6916) (- 3.61315),
    WP2 (1.9489) (- 3.62299),
    WP2 (2.20403) (- 3.67601),
    WP2 (2.45328) (- 3.77354),
    WP2 (2.69005) (- 3.92338),
    WP2 (2.94411) (- 4.01746),
    WP2 (3.19298) (- 4.05176),
    WP2 (3.42603) (- 4.0289),
    WP2 (3.63458) (- 3.95263),
    WP2 (3.81) (- 3.82567),
    WP2 (3.92786) (- 3.64044),
    WP2 (3.98445) (- 3.41809),
    WP2 (3.98138) (- 3.17723),
    WP2 (3.92288) (- 2.9333),
    WP2 (3.81718) (- 2.69741),
    WP2 (3.67368) (- 2.47517),
    WP2 (3.50131) (- 2.26778),
    WP2 (3.30856) (- 2.07314),
    WP2 (3.10167) (- 1.88845),
    WP2 (2.88408) (- 1.71115),
    WP2 (2.65936) (- 1.51577),
    WP2 (2.43924) (- 1.31391),
    WP2 (2.22303) (- 1.10716),
    WP2 (2.01001) (- 0.89649),
    WP2 (1.79956) (- 0.68266),
    WP2 (1.59116) (- 0.46633),
    WP2 (1.38438) (- 0.24802),
    WP2 (1.17885) (- 0.02819)]"

definition score_steering2 :: "params \<Rightarrow> 'a coor_scheme \<Rightarrow> py_error + real" where
  "score_steering2 params target_wp =
     thenE (getnum params ''x'') (\<lambda>x.
     thenE (getnum params ''y'') (\<lambda>y.
     let car = \<lparr>coord_0 = x, coord_1 = y\<rparr>;
         target_angle = atan2 (coord_1 target_wp - coord_1 car) (coord_0 target_wp - coord_0 car) in
     thenE (getnum params ''heading'') (\<lambda>heading_deg.
     thenE (getnum params ''steering_angle'') (\<lambda>steering_deg.
     let target_steering_deg = get_difference_degrees target_angle (radians heading_deg);
         target_steering_deg = max (- 30) (min 30 target_steering_deg);
         diff = \<bar>steering_deg - target_steering_deg\<bar>;
         score = 1.1 - diff / 30.0;
         score = score * reward_max2
     in Inr (max (min score reward_max2) reward_min2)))))"

definition score_speed2 :: "params \<Rightarrow> py_error + real" where
  "score_speed2 params =
     thenE (getnum params ''speed'') (\<lambda>speed.
     let score = 0.1 + (speed - 1.0) / 3.0;
         score = score * reward_max2
     in Inr (max (min score reward_max2) reward_min2))"

definition score_center2 :: "params \<Rightarrow> 'a coor_scheme \<Rightarrow> py_error + real" where
  "score_center2 params closest_wp =
     thenE (getnum params ''x'') (\<lambda>x.
     thenE (getnum params ''y'') (\<lambda>y.
     let car = \<lparr>coord_0 = x, coord_1 = y\<rparr>;
         line_point = \<lparr>coord_0 = coord_0 closest_wp, coord_1 = coord_1 closest_wp\<rparr>;
         dist_to_line = get_distance car line_point;
         score = reward_max2 - dist_to_line
     in Inr (max (min score reward_max2) reward_min2)))"

definition score_progress2 :: "params \<Rightarrow> py_error + real" where
  "score_progress2 params =
     thenE (getnum params ''progress'') (\<lambda>progress_percent.
     let score = (progress_percent / 100.0) * reward_max2
     in Inr (max (min score reward_max2) reward_min2))"

definition reward_function2 :: "params \<Rightarrow> py_error + real" where
  "reward_function2 params =
     thenE (getitem params ''is_offtrack'') (\<lambda>is_offtrack.
     if py_truthy is_offtrack then Inr 0.001
     else
       let line_x0 = 7; line_x1 = - 6;
           line_y0 = - 7; line_y1 = 6;
           m = (line_y1 - line_y0) / (line_x1 - line_x0) in
       thenE (getnum params ''x'') (\<lambda>x.
       let line_y_at_car_x = m * x + line_y0 - m * line_x0 in
       thenE (getnum params ''y'') (\<lambda>y.
       let sight = (if y < line_y_at_car_x then 0.5 else 1);
           racing_track = get_racing_track2 in
       thenE (draw_ray params racing_track sight) (\<lambda>(target_idx, min_idx).
       thenE (py_index racing_track target_idx) (\<lambda>target.
       thenE (score_steering2 params target) (\<lambda>steering_score.
       thenE (score_speed2 params) (\<lambda>speed_score.
       thenE (py_index racing_track min_idx) (\<lambda>closest.
       thenE (score_center2 params closest) (\<lambda>center_score.
       thenE (score_progress2 params) (\<lambda>progress_score.
       let steering_weight = 0.1;
           speed_weight = 0.5;
           center_weight = 0.3;
           progress_weight = 0.1;
           reward = steering_weight * steering_score
                  + speed_weight * speed_score
                  + center_weight * center_score
                  + progress_weight * progress_score;
           reward = max (min reward reward_max2) reward_min2
       in Inr reward))))))))))"

section \<open>Notions of the statements and concrete inputs\<close>

text \<open>Two calls that carry only the key \<^verbatim>\<open>progress\<close>, at 0 and at 1.0.\<close>

definition first_call :: params where
  "first_call = [''progress'' \<mapsto> PyNum 0]"

definition second_call :: params where
  "second_call = [''progress'' \<mapsto> PyNum 1.0]"

text \<open>A call of the weighted variant that carries the off-track flag and nothing else.\<close>

definition offtrack_only :: params where
  "offtrack_only = [''is_offtrack'' \<mapsto> PyBool True]"

text \<open>
  What the loop of \<^verbatim>\<open>get_distance_list\<close> maintains: \<open>min_idx\<close> is the first index of the
  least distance seen so far and \<open>min_dist\<close> that distance; before any waypoint they are
  \<^verbatim>\<open>-1\<close> and \<^verbatim>\<open>inf\<close>.
\<close>

definition first_minimum :: "real list \<Rightarrow> min_bound \<Rightarrow> int \<Rightarrow> bool" where
  "first_minimum dist_list min_dist min_idx =
     (if dist_list = [] then min_dist = PosInf \<and> min_idx = - 1
      else 0 \<le> min_idx \<and> min_idx < int (length dist_list)
         \<and> min_dist = Finite (dist_list ! nat min_idx)
         \<and> (\<forall>j < length dist_list. dist_list ! nat min_idx \<le> dist_list ! j)
         \<and> (\<forall>j < nat min_idx. dist_list ! nat min_idx < dist_list ! j))"

text \<open>
  A car at the origin and four waypoints, the last three at the same distance 5.
\<close>

definition tie_car :: coor where
  "tie_car = \<lparr>coord_0 = 0, coord_1 = 0\<rparr>"

definition tie_waypoints :: "coor list" where
  "tie_waypoints = [WP2 0 6, WP2 3 4, WP2 (- 4) 3, WP2 0 5]"

text \<open>
  The call of the specification's example: the car on waypoint 0 of the track, heading and
  steering 0, speed 4.0, track width 0.8, with progress 1.0.
\<close>

definition example_call :: params where
  "example_call = [''x'' \<mapsto> PyNum 1.17885, ''y'' \<mapsto> PyNum (- 0.02819), ''heading'' \<mapsto> PyNum 0,
     ''steering_angle'' \<mapsto> PyNum 0, ''speed'' \<mapsto> PyNum 4.0, ''track_width'' \<mapsto> PyNum 0.8,
     ''progress'' \<mapsto> PyNum 1.0]"

text \<open>
  The ideal steering angle that \<^verbatim>\<open>score_steering\<close> computes in both variants: the bearing from
  the car to the target, minus the heading, in degrees, clipped to \<open>[-30, 30]\<close>.
\<close>

definition ideal_steering :: "real \<Rightarrow> real \<Rightarrow> real \<Rightarrow> 'a coor_scheme \<Rightarrow> real" where
  "ideal_steering x y heading target =
     max (- 30) (min 30 (get_difference_degrees (atan2 (coord_1 target - y) (coord_0 target - x))
                           (radians heading)))"

text \<open>The keys both variants read; \<open>telemetry\<close> holds when all of them are present.\<close>

definition required_keys :: "string list" where
  "required_keys = [''x'', ''y'', ''heading'', ''steering_angle'', ''speed'', ''track_width'', ''progress'']"

definition telemetry :: "params \<Rightarrow> bool" where
  "telemetry p = (\<forall>k \<in> set required_keys. p k \<noteq> None)"

text \<open>
  The example call for the weighted variant, with the steering one degree to the right, and
  the same call with a track width of zero.
\<close>

definition example2_call :: params where
  "example2_call = [''x'' \<mapsto> PyNum 1.17885, ''y'' \<mapsto> PyNum (- 0.02819), ''heading'' \<mapsto> PyNum 0,
     ''steering_angle'' \<mapsto> PyNum (- 1), ''speed'' \<mapsto> PyNum 4.0, ''track_width'' \<mapsto> PyNum 0.8,
     ''progress'' \<mapsto> PyNum 0, ''is_offtrack'' \<mapsto> PyBool False]"

definition zero_width_call :: params where
  "zero_width_call = [''x'' \<mapsto> PyNum 1.17885, ''y'' \<mapsto> PyNum (- 0.02819), ''heading'' \<mapsto> PyNum 0,
     ''steering_angle'' \<mapsto> PyNum 0, ''speed'' \<mapsto> PyNum 4.0, ''track_width'' \<mapsto> PyNum 0,
     ''progress'' \<mapsto> PyNum 0, ''is_offtrack'' \<mapsto> PyBool False]"

text \<open>The example call of the weighted variant with the steering at 29 degrees.\<close>

definition near_ideal_call :: params where
  "near_ideal_call = [''x'' \<mapsto> PyNum 1.17885, ''y'' \<mapsto> PyNum (- 0.02819), ''heading'' \<mapsto> PyNum 0,
     ''steering_angle'' \<mapsto> PyNum 29, ''speed'' \<mapsto> PyNum 4.0, ''track_width'' \<mapsto> PyNum 0.8,
     ''progress'' \<mapsto> PyNum 0, ''is_offtrack'' \<mapsto> PyBool False]"

text \<open>
  The exception of a missing required key: \<^verbatim>\<open>KeyError\<close> with a required key that the mapping
  does not hold.
\<close>

definition key_error :: "params \<Rightarrow> py_error \<Rightarrow> bool" where
  "key_error p e = (\<exists>k \<in> set required_keys. p k = None \<and> e = KeyError k)"

text \<open>
  A call that carries a false off-track flag and nothing else, and the example call of the
  weighted variant with one more key that neither variant reads.
\<close>

definition onroad_only :: params where
  "onroad_only = [''is_offtrack'' \<mapsto> PyBool False]"

definition extra_keys_call :: params where
  "extra_keys_call = example2_call(''all_wheels_on_track'' \<mapsto> PyBool True)"

text \<open>
  The rewards of a sequence of calls of the additive variant in one process: each call
  starts from the \<^verbatim>\<open>last_progress\<close> the call before left.
\<close>

fun calls :: "real \<Rightarrow> params list \<Rightarrow> (py_error + real) list" where
  "calls last_progress [] = []"
| "calls last_progress (p # ps) =
     (case reward_function p last_progress of
        (r, last_progress) \<Rightarrow> r # calls last_progress ps)"

text \<open>
  \<^verbatim>\<open>carthing2.py\<close> once more, with the module's variables explicit. A Python function looks a
  module variable up when it runs, so each function of \<^verbatim>\<open>carthing2.py\<close> that names
  \<^verbatim>\<open>reward_max\<close> or \<^verbatim>\<open>reward_min\<close> takes the module's variables, reads them where the source
  names them (an unset name raises \<^verbatim>\<open>NameError\<close>) and returns the variables it leaves. The
  source has no \<^verbatim>\<open>global\<close> statement, so no step assigns one. The functions that name no
  module variable (\<^verbatim>\<open>draw_ray\<close> and the helpers it calls) are steps of their own.
\<close>

type_synonym module_vars = "string \<rightharpoonup> pyval"

type_synonym 'a in_module = "module_vars \<Rightarrow> (py_error + 'a) \<times> module_vars"

definition read_global :: "string \<Rightarrow> real in_module" where
  "read_global name g =
     (case g name of None \<Rightarrow> (Inl (NameError name), g) | Some v \<Rightarrow> (Inr (py_float v), g))"

definition no_global :: "py_error + 'a \<Rightarrow> 'a in_module" where
  "no_global r g = (r, g)"

definition thenM :: "'a in_module \<Rightarrow> ('a \<Rightarrow> 'b in_module) \<Rightarrow> 'b in_module" where
  "thenM m f g = (case m g of (Inl e, g') \<Rightarrow> (Inl e, g') | (Inr v, g') \<Rightarrow> f v g')"

text \<open>The module's variables as \<^verbatim>\<open>carthing2.py\<close> sets them when it is loaded.\<close>

definition module2 :: module_vars where
  "module2 = [''reward_max'' \<mapsto> PyNum 10.0, ''reward_min'' \<mapsto> PyNum 0.001]"

definition score_steering2_m :: "params \<Rightarrow> 'a coor_scheme \<Rightarrow> real in_module" where
  "score_steering2_m params target_wp =
     thenM (no_global (getnum params ''x'')) (\<lambda>x.
     thenM (no_global (getnum params ''y'')) (\<lambda>y.
     let car = \<lparr>coord_0 = x, coord_1 = y\<rparr>;
         target_angle = atan2 (coord_1 target_wp - coord_1 car) (coord_0 target_wp - coord_0 car) in
     thenM (no_global (getnum params ''heading'')) (\<lambda>heading_deg.
     thenM (no_global (getnum params ''steering_angle'')) (\<lambda>steering_deg.
     let target_steering_deg = get_difference_degrees target_angle (radians heading_deg);
         target_steering_deg = max (- 30) (min 30 target_steering_deg);
         diff = \<bar>steering_deg - target_steering_deg\<bar>;
         score = 1.1 - diff / 30.0 in
     thenM (read_global ''reward_max'') (\<lambda>reward_max.
     let score = score * reward_max in
     thenM (read_global ''reward_max'') (\<lambda>reward_max.
     thenM (read_global ''reward_min'') (\<lambda>reward_min.
     no_global (Inr (max (min score reward_max) reward_min)))))))))"

definition score_speed2_m :: "params \<Rightarrow> real in_module" where
  "score_speed2_m params =
     thenM (no_global (getnum params ''speed'')) (\<lambda>speed.
     let score = 0.1 + (speed - 1.0) / 3.0 in
     thenM (read_global ''reward_max'') (\<lambda>reward_max.
     let score = score * reward_max in
     thenM (read_global ''reward_max'') (\<lambda>reward_max.
     thenM (read_global ''reward_min'') (\<lambda>reward_min.
     no_global (Inr (max (min score reward_max) reward_min))))))"

definition score_center2_m :: "params \<Rightarrow> 'a coor_scheme \<Rightarrow> real in_module" where
  "score_center2_m params closest_wp =
     thenM (no_global (getnum params ''x'')) (\<lambda>x.
     thenM (no_global (getnum params ''y'')) (\<lambda>y.
     let car = \<lparr>coord_0 = x, coord_1 = y\<rparr>;
         line_point = \<lparr>coord_0 = coord_0 closest_wp, coord_1 = coord_1 closest_wp\<rparr>;
         dist_to_line = get_distance car line_point in
     thenM (read_global ''reward_max'') (\<lambda>reward_max.
     let score = reward_max - dist_to_line in
     thenM (read_global ''reward_max'') (\<lambda>reward_max.
     thenM (read_global ''reward_min'') (\<lambda>reward_min.
     no_global (Inr (max (min score reward_max) reward_min)))))))"

definition score_progress2_m :: "params \<Rightarrow> real in_module" where
  "score_progress2_m params =
     thenM (no_global (getnum params ''progress'')) (\<lambda>progress_percent.
     thenM (read_global ''reward_max'') (\<lambda>reward_max.
     let score = (progress_percent / 100.0) * reward_max in
     thenM (read_global ''reward_max'') (\<lambda>reward_max.
     thenM (read_global ''reward_min'') (\<lambda>reward_min.
     no_global (Inr (max (min score reward_max) reward_min))))))"

definition reward_function2_m :: "params \<Rightarrow> real in_module" where
  "reward_function2_m params =
     thenM (no_global (getitem params ''is_offtrack'')) (\<lambda>is_offtrack.
     if py_truthy is_offtrack then no_global (Inr 0.001)
     else
       let line_x0 = 7; line_x1 = - 6;
           line_y0 = - 7; line_y1 = 6;
           m = (line_y1 - line_y0) / (line_x1 - line_x0) in
       thenM (no_global (getnum params ''x'')) (\<lambda>x.
       let line_y_at_car_x = m * x + line_y0 - m * line_x0 in
       thenM (no_global (getnum params ''y'')) (\<lambda>y.
       let sight = (if y < line_y_at_car_x then 0.5 else 1);
           racing_track = get_racing_track2 in
       thenM (no_global (draw_ray params racing_track sight)) (\<lambda>(target_idx, min_idx).
       thenM (no_global (py_index racing_track target_idx)) (\<lambda>target.
       thenM (score_steering2_m params target) (\<lambda>steering_score.
       thenM (score_speed2_m params) (\<lambda>speed_score.
       thenM (no_global (py_index racing_track min_idx)) (\<lambda>closest.
       thenM (score_center2_m params closest) (\<lambda>center_score.
       thenM (score_progress2_m params) (\<lambda>progress_score.
       let steering_weight = 0.1;
           speed_weight = 0.5;
           center_weight = 0.3;
           progress_weight = 0.1;
           reward = steering_weight * steering_score
                  + speed_weight * speed_score
                  + center_weight * center_score
                  + progress_weight * progress_score in
       thenM (read_global ''reward_max'') (\<lambda>reward_max.
       thenM (read_global ''reward_min'') (\<lambda>reward_min.
       let reward = max (min reward reward_max) reward_min in
       no_global (Inr reward)))))))))))))"

text \<open>The same variables with a \<^verbatim>\<open>last_progress\<close> beside them, as the additive variant has.\<close>

definition module2_with_progress :: module_vars where
  "module2_with_progress = module2(''last_progress'' \<mapsto> PyNum 50)"

text \<open>
  The rewards of a sequence of calls of the weighted variant, each call starting from the
  module's variables the call before left.
\<close>

fun calls2 :: "module_vars \<Rightarrow> params list \<Rightarrow> (py_error + real) list" where
  "calls2 g [] = []"
| "calls2 g (p # ps) = (case reward_function2_m p g of (r, g) \<Rightarrow> r # calls2 g ps)"

text \<open>
  A step is stateless on a set of names when it leaves the module's variables as they were
  and its result is the same for any two modules that agree on these names.
\<close>

definition stateless_on :: "string set \<Rightarrow> 'a in_module \<Rightarrow> bool" where
  "stateless_on names m =
     ((\<forall>g. snd (m g) = g)
      \<and> (\<forall>g g'. (\<forall>n \<in> names. g' n = g n) \<longrightarrow> fst (m g') = fst (m g)))"

section \<open>Reading the dictionary\<close>

lemma getnum_Some: "params key = Some v \<Longrightarrow> getnum params key = Inr (py_float v)"
  by (simp add: getnum_def getitem_def thenE_def)

lemma getnum_None: "params key = None \<Longrightarrow> getnum params key = Inl (KeyError key)"
  by (simp add: getnum_def getitem_def thenE_def)

section \<open>The delta-based progress score\<close>

lemma score_progress_Inr:
  "getnum p ''progress'' = Inr a \<Longrightarrow>
     score_progress p lp = (Inr (max ((a - lp) * reward_max) reward_min), a)"
  by (simp add: score_progress_def Let_def)

text \<open>
  C2: \<^verbatim>\<open>score_progress\<close> of \<^verbatim>\<open>carthing.py\<close> returns \<open>(progress - last_progress) * reward_max\<close>
  floored at \<open>reward_min\<close> and leaves \<open>last_progress\<close> equal to the progress it read. So a
  larger delta gives a larger score, strictly unless both scores sit at the floor, and a
  call that follows a call with progress \<open>a\<close> scores the delta from \<open>a\<close>.
\<close>

theorem score_progress_delta:
  assumes "getnum p ''progress'' = Inr a" and "getnum q ''progress'' = Inr b"
  shows "score_progress p lp = (Inr (max ((a - lp) * reward_max) reward_min), a)
       \<and> (\<forall>s t. fst (score_progress p lp) = Inr s \<longrightarrow> fst (score_progress q lq) = Inr t \<longrightarrow>
             (a - lp \<le> b - lq \<longrightarrow> s \<le> t)
           \<and> (a - lp < b - lq \<longrightarrow> s < t \<or> (s = reward_min \<and> t = reward_min)))
       \<and> (\<exists>s. score_progress p lp = (Inr s, a)
             \<and> fst (score_progress q a) = Inr (max ((b - a) * reward_max) reward_min))"
proof -
  have P: "score_progress p lp = (Inr (max ((a - lp) * reward_max) reward_min), a)"
    using assms(1) by (rule score_progress_Inr)
  have Q: "score_progress q lq = (Inr (max ((b - lq) * reward_max) reward_min), b)"
    using assms(2) by (rule score_progress_Inr)
  have Q': "score_progress q a = (Inr (max ((b - a) * reward_max) reward_min), b)"
    using assms(2) by (rule score_progress_Inr)
  have pos: "0 < reward_max" by (simp add: reward_max_def)
  have mono: "a - lp \<le> b - lq \<Longrightarrow>
      max ((a - lp) * reward_max) reward_min \<le> max ((b - lq) * reward_max) reward_min"
    using pos by (simp add: max.coboundedI1 mult_right_mono)
  have strict: "a - lp < b - lq \<Longrightarrow>
      max ((a - lp) * reward_max) reward_min < max ((b - lq) * reward_max) reward_min
      \<or> (max ((a - lp) * reward_max) reward_min = reward_min
          \<and> max ((b - lq) * reward_max) reward_min = reward_min)"
  proof -
    assume "a - lp < b - lq"
    then have "(a - lp) * reward_max < (b - lq) * reward_max"
      using pos by simp
    then show ?thesis by (auto simp: max_def)
  qed
  show ?thesis using P Q Q' mono strict by simp
qed

theorem score_progress_delta_witness:
  "getnum first_call ''progress'' = Inr 0 \<and> getnum second_call ''progress'' = Inr 1
   \<and> score_progress first_call 0 = (Inr reward_min, 0)
   \<and> fst (score_progress second_call 0) = Inr 5.0"
proof -
  have a: "getnum first_call ''progress'' = Inr 0"
    by (simp add: first_call_def getnum_Some)
  have b: "getnum second_call ''progress'' = Inr 1"
    by (simp add: second_call_def getnum_Some)
  show ?thesis
    using a b score_progress_delta [OF a b, of 0 0]
    by (simp add: reward_max_def reward_min_def)
qed

section \<open>The off-track short circuit\<close>

text \<open>
  C7: in \<^verbatim>\<open>carthing2.py\<close>, a truthy \<^verbatim>\<open>is_offtrack\<close> makes \<^verbatim>\<open>reward_function\<close> return the minimum
  reward 0.001 at once, whatever the other keys hold, even when they are missing.
\<close>

theorem offtrack_short_circuit:
  "params ''is_offtrack'' = Some v \<Longrightarrow> py_truthy v \<Longrightarrow>
     reward_function2 params = Inr 0.001 \<and> reward_function2 params = Inr reward_min2"
  by (simp add: reward_function2_def getitem_def thenE_def reward_min2_def)

theorem offtrack_short_circuit_witness:
  "offtrack_only ''is_offtrack'' = Some (PyBool True) \<and> py_truthy (PyBool True)
   \<and> reward_function2 offtrack_only = Inr 0.001"
  using offtrack_short_circuit [of offtrack_only "PyBool True"]
  by (simp add: offtrack_only_def)

section \<open>The angle difference\<close>

lemma py_fmod_range: "0 < b \<Longrightarrow> 0 \<le> py_fmod a b \<and> py_fmod a b < b"
proof -
  assume b: "0 < b"
  have "b * of_int \<lfloor>a / b\<rfloor> \<le> b * (a / b)"
    using b by (intro mult_left_mono) simp_all
  then have 1: "b * of_int \<lfloor>a / b\<rfloor> \<le> a" using b by simp
  have "a / b < of_int \<lfloor>a / b\<rfloor> + 1" by linarith
  then have "b * (a / b) < b * (of_int \<lfloor>a / b\<rfloor> + 1)"
    using b by (intro mult_strict_left_mono) simp_all
  then have 2: "a - b * of_int \<lfloor>a / b\<rfloor> < b" using b by (simp add: algebra_simps)
  show ?thesis using 1 2 by (simp add: py_fmod_def)
qed

text \<open>
  C3 (as amended): \<^verbatim>\<open>get_difference_degrees\<close> returns \<open>a1 - a2\<close> reduced modulo \<open>2 * pi\<close> and
  converted to degrees, in the interval from -180 (included) to 180 (excluded).
\<close>

theorem get_difference_degrees_range:
  "- 180 \<le> get_difference_degrees a1 a2 \<and> get_difference_degrees a1 a2 < 180
   \<and> (\<exists>k::int. get_difference_degrees a1 a2 = degrees ((a1 - a2) - 2 * pi * of_int k))"
proof -
  let ?d = "py_fmod (a1 - a2) (2 * pi)"
  have r: "0 \<le> ?d \<and> ?d < 2 * pi" by (rule py_fmod_range) simp
  have deg: "\<And>x. - pi \<le> x \<Longrightarrow> x < pi \<Longrightarrow> - 180 \<le> degrees x \<and> degrees x < 180"
    by (simp add: degrees_def pos_le_divide_eq pos_divide_less_eq)
  show ?thesis
  proof (cases "?d \<ge> pi")
    case True
    have g: "get_difference_degrees a1 a2 = degrees (?d - 2 * pi)"
      using True by (simp add: get_difference_degrees_def Let_def)
    have "?d - 2 * pi = (a1 - a2) - 2 * pi * of_int (\<lfloor>(a1 - a2) / (2 * pi)\<rfloor> + 1)"
      by (simp add: py_fmod_def algebra_simps)
    then have "\<exists>k::int. get_difference_degrees a1 a2 = degrees ((a1 - a2) - 2 * pi * of_int k)"
      using g by metis
    moreover have "- 180 \<le> degrees (?d - 2 * pi) \<and> degrees (?d - 2 * pi) < 180"
      using True r by (intro deg) auto
    ultimately show ?thesis using g by simp
  next
    case False
    have g: "get_difference_degrees a1 a2 = degrees ?d"
      using False by (simp add: get_difference_degrees_def Let_def)
    have "?d = (a1 - a2) - 2 * pi * of_int \<lfloor>(a1 - a2) / (2 * pi)\<rfloor>"
      by (simp add: py_fmod_def)
    then have "\<exists>k::int. get_difference_degrees a1 a2 = degrees ((a1 - a2) - 2 * pi * of_int k)"
      using g by metis
    moreover have "- 180 \<le> degrees ?d \<and> degrees ?d < 180"
      using False r by (intro deg) auto
    ultimately show ?thesis using g by simp
  qed
qed

text \<open>
  At a difference of exactly \<open>pi\<close> the result is -180, so the interval is not open at -180.
\<close>

theorem get_difference_degrees_boundary:
  "get_difference_degrees pi 0 = - 180
   \<and> \<not> (- 180 < get_difference_degrees pi 0 \<and> get_difference_degrees pi 0 \<le> 180)"
proof -
  have "py_fmod pi (2 * pi) = pi" by (simp add: py_fmod_def)
  then have "get_difference_degrees pi 0 = - 180"
    by (simp add: get_difference_degrees_def Let_def degrees_def)
  then show ?thesis by simp
qed

section \<open>Sequencing and indexing\<close>

lemma thenE_Inr [simp]: "thenE (Inr v) f = f v"
  by (simp add: thenE_def)

lemma thenE_Inl [simp]: "thenE (Inl e) f = Inl e"
  by (simp add: thenE_def)

lemma py_index_in_range: "0 \<le> i \<Longrightarrow> i < int (length xs) \<Longrightarrow> py_index xs i = Inr (xs ! nat i)"
  by (simp add: py_index_def)

section \<open>The nearest waypoint\<close>

lemma first_minimum_step:
  assumes "first_minimum dl md mi"
  shows "first_minimum (dl @ [d]) (if less_bound d md then Finite d else md)
           (if less_bound d md then int (length dl) else mi)"
proof (cases "dl = []")
  case True
  with assms show ?thesis by (simp add: first_minimum_def)
next
  case False
  with assms have mi: "0 \<le> mi" "mi < int (length dl)" and md: "md = Finite (dl ! nat mi)"
    and le: "\<forall>j < length dl. dl ! nat mi \<le> dl ! j"
    and lt: "\<forall>j < nat mi. dl ! nat mi < dl ! j"
    by (simp_all add: first_minimum_def)
  have n: "nat mi < length dl" using mi by simp
  show ?thesis
  proof (cases "d < dl ! nat mi")
    case True
    have "\<forall>j < Suc (length dl). d \<le> (dl @ [d]) ! j"
    proof (intro allI impI)
      fix j assume "j < Suc (length dl)"
      then consider "j < length dl" | "j = length dl" by linarith
      then show "d \<le> (dl @ [d]) ! j"
      proof cases
        case 1
        then have "dl ! nat mi \<le> dl ! j" using le by simp
        with True 1 show ?thesis by (simp add: nth_append)
      next
        case 2
        then show ?thesis by simp
      qed
    qed
    moreover have "\<forall>j < length dl. d < (dl @ [d]) ! j"
    proof (intro allI impI)
      fix j assume j: "j < length dl"
      then have "dl ! nat mi \<le> dl ! j" using le by simp
      with True j show "d < (dl @ [d]) ! j" by (simp add: nth_append)
    qed
    ultimately show ?thesis using True md by (simp add: first_minimum_def)
  next
    case nless: False
    have "\<forall>j < Suc (length dl). (dl @ [d]) ! nat mi \<le> (dl @ [d]) ! j"
    proof (intro allI impI)
      fix j assume "j < Suc (length dl)"
      then consider "j < length dl" | "j = length dl" by linarith
      then show "(dl @ [d]) ! nat mi \<le> (dl @ [d]) ! j"
      proof cases
        case 1
        then have "dl ! nat mi \<le> dl ! j" using le by simp
        with n 1 show ?thesis by (simp add: nth_append)
      next
        case 2
        with n nless show ?thesis by (simp add: nth_append)
      qed
    qed
    moreover have "\<forall>j < nat mi. (dl @ [d]) ! nat mi < (dl @ [d]) ! j"
    proof (intro allI impI)
      fix j assume j: "j < nat mi"
      then have "dl ! nat mi < dl ! j" using lt by simp
      with n j show "(dl @ [d]) ! nat mi < (dl @ [d]) ! j" by (simp add: nth_append)
    qed
    ultimately show ?thesis using nless md mi n by (simp add: first_minimum_def nth_append)
  qed
qed

lemma get_distance_loop_inv:
  "first_minimum dl md mi \<Longrightarrow> i = int (length dl) \<Longrightarrow>
     \<exists>md' mi'. get_distance_loop car i wps dl md mi = (dl @ map (get_distance car) wps, md', mi')
              \<and> first_minimum (dl @ map (get_distance car) wps) md' mi'"
proof (induction wps arbitrary: dl md mi i)
  case Nil
  then show ?case by simp
next
  case (Cons w wps)
  let ?d = "get_distance car w"
  have step: "first_minimum (dl @ [?d]) (if less_bound ?d md then Finite ?d else md)
           (if less_bound ?d md then int (length dl) else mi)"
    using Cons.prems(1) by (rule first_minimum_step)
  have len: "i + 1 = int (length (dl @ [?d]))" using Cons.prems(2) by simp
  from Cons.IH [OF step len] Cons.prems(2) show ?case
    by (auto simp: Let_def)
qed

lemma get_distance_list_inv:
  "\<exists>md mi. get_distance_list car wps = (map (get_distance car) wps, md, mi, int (length wps))
         \<and> first_minimum (map (get_distance car) wps) md mi"
proof -
  have "first_minimum [] PosInf (- 1)" by (simp add: first_minimum_def)
  from get_distance_loop_inv [OF this, of 0 car wps]
  show ?thesis by (auto simp: get_distance_list_def)
qed

text \<open>
  C4: for a non-empty waypoint list, \<^verbatim>\<open>get_distance_list\<close> returns the distance from the car to
  every waypoint, the least of them and its index \<open>k\<close>, and every waypoint before \<open>k\<close> is
  strictly farther: among equidistant nearest waypoints the lowest index wins.
\<close>

theorem get_distance_list_nearest:
  assumes "waypoints \<noteq> []"
  shows "\<exists>k. k < length waypoints
           \<and> get_distance_list car waypoints =
               (map (get_distance car) waypoints, Finite (get_distance car (waypoints ! k)),
                int k, int (length waypoints))
           \<and> (\<forall>j < length waypoints. get_distance car (waypoints ! k) \<le> get_distance car (waypoints ! j))
           \<and> (\<forall>j < k. get_distance car (waypoints ! k) < get_distance car (waypoints ! j))"
proof -
  let ?dl = "map (get_distance car) waypoints"
  obtain md mi where g: "get_distance_list car waypoints = (?dl, md, mi, int (length waypoints))"
    and f: "first_minimum ?dl md mi"
    using get_distance_list_inv by blast
  from f assms have mi: "0 \<le> mi" "mi < int (length waypoints)"
    and md: "md = Finite (?dl ! nat mi)"
    and le: "\<forall>j < length waypoints. ?dl ! nat mi \<le> ?dl ! j"
    and lt: "\<forall>j < nat mi. ?dl ! nat mi < ?dl ! j"
    by (simp_all add: first_minimum_def)
  have n: "nat mi < length waypoints" using mi by simp
  have "get_distance_list car waypoints =
          (?dl, Finite (get_distance car (waypoints ! nat mi)), int (nat mi), int (length waypoints))"
    using g md mi n by simp
  moreover have "\<forall>j < length waypoints.
      get_distance car (waypoints ! nat mi) \<le> get_distance car (waypoints ! j)"
    using le n by simp
  moreover have "\<forall>j < nat mi. get_distance car (waypoints ! nat mi) < get_distance car (waypoints ! j)"
    using lt n by simp
  ultimately show ?thesis using n by blast
qed

lemma sqrt_25: "sqrt 25 = 5" by (rule real_sqrt_unique) simp_all
lemma sqrt_36: "sqrt 36 = 6" by (rule real_sqrt_unique) simp_all

lemma tie_value: "get_distance_list tie_car tie_waypoints = ([6, 5, 5, 5], Finite 5, 1, 4)"
  by (simp add: get_distance_list_def tie_car_def tie_waypoints_def WP2_def get_distance_def Let_def
       sqrt_25 sqrt_36)

theorem get_distance_list_nearest_witness:
  "tie_waypoints \<noteq> [] \<and> get_distance_list tie_car tie_waypoints = ([6, 5, 5, 5], Finite 5, 1, 4)
   \<and> get_distance tie_car (tie_waypoints ! 1) = get_distance tie_car (tie_waypoints ! 2)"
proof -
  have ne: "tie_waypoints \<noteq> []" by (simp add: tie_waypoints_def)
  have eq: "get_distance tie_car (tie_waypoints ! 1) = get_distance tie_car (tie_waypoints ! 2)"
    by (simp add: tie_car_def tie_waypoints_def WP2_def get_distance_def)
  from get_distance_list_nearest [OF ne, of tie_car] tie_value eq ne
  show ?thesis by simp
qed

lemma get_distance_nonneg: "0 \<le> get_distance a b"
  by (simp add: get_distance_def)

lemma get_distance_list_on_first:
  assumes "waypoints \<noteq> []" and "get_distance car (waypoints ! 0) = 0"
  shows "get_distance_list car waypoints =
           (map (get_distance car) waypoints, Finite 0, 0, int (length waypoints))"
proof -
  let ?dl = "map (get_distance car) waypoints"
  obtain md mi where g: "get_distance_list car waypoints = (?dl, md, mi, int (length waypoints))"
    and f: "first_minimum ?dl md mi"
    using get_distance_list_inv by blast
  from f assms(1) have mi: "0 \<le> mi" "mi < int (length waypoints)"
    and md: "md = Finite (?dl ! nat mi)"
    and lt: "\<forall>j < nat mi. ?dl ! nat mi < ?dl ! j"
    by (simp_all add: first_minimum_def)
  have "nat mi = 0"
  proof (rule ccontr)
    assume "nat mi \<noteq> 0"
    then have "?dl ! nat mi < ?dl ! 0" using lt by simp
    moreover have "?dl ! 0 = 0" using assms by simp
    moreover have "0 \<le> ?dl ! nat mi" using mi by (simp add: get_distance_nonneg)
    ultimately show False by simp
  qed
  then have "mi = 0" using mi by simp
  with g md assms show ?thesis by simp
qed

section \<open>The look-ahead scan\<close>

lemma floor_tenth: "\<lfloor>real_of_int n * 0.1\<rfloor> = n div 10"
proof -
  have "real_of_int n * 0.1 = real_of_int n / real_of_int 10" by simp
  then show ?thesis by (simp only: floor_divide_of_int_eq)
qed

lemma floor_tenth_div: "\<lfloor>real_of_int n / 10\<rfloor> = n div 10"
  using floor_tenth [of n] by simp

lemma scanned_in_range:
  "0 < len \<Longrightarrow> len = int (length dl) \<Longrightarrow>
     py_index dl ((mi + i) mod len) = Inr (dl ! nat ((mi + i) mod len))"
  by (rule py_index_in_range) simp_all

lemma draw_ray_loop_break:
  assumes "0 < len" and "len = int (length dl)"
    and "\<forall>j \<in> set pre. dl ! nat ((mi + j) mod len) < td"
    and "td \<le> dl ! nat ((mi + i) mod len)"
  shows "draw_ray_loop dl td mi len t (pre @ i # post) = Inr ((mi + i) mod len)"
  using assms(3)
proof (induction pre arbitrary: t)
  case Nil
  show ?case using assms(4) by (simp add: scanned_in_range [OF assms(1,2)] Let_def)
next
  case (Cons j pre)
  then show ?case by (simp add: scanned_in_range [OF assms(1,2)] Let_def)
qed

lemma draw_ray_loop_exhaust:
  assumes "0 < len" and "len = int (length dl)"
    and "\<forall>j \<in> set offsets. dl ! nat ((mi + j) mod len) < td"
  shows "draw_ray_loop dl td mi len t offsets =
           Inr (if offsets = [] then t else (mi + last offsets) mod len)"
  using assms(3)
proof (induction offsets arbitrary: t)
  case Nil
  show ?case by simp
next
  case (Cons j offsets)
  then show ?case by (simp add: scanned_in_range [OF assms(1,2)] Let_def)
qed

lemma draw_ray_loop_total:
  assumes "0 < len" and "len = int (length dl)"
  shows "\<exists>r. draw_ray_loop dl td mi len t offsets = Inr r"
proof (induction offsets arbitrary: t)
  case Nil
  show ?case by simp
next
  case (Cons j offsets)
  then show ?case by (simp add: scanned_in_range [OF assms] Let_def)
qed

lemma py_range_empty: "b \<le> a \<Longrightarrow> py_range a b = []"
  by (simp add: py_range_def)

lemma py_range_split: "a \<le> i \<Longrightarrow> i < b \<Longrightarrow> py_range a b = py_range a i @ i # py_range (i + 1) b"
  unfolding py_range_def using upto_split3 [of a i "b - 1"] by simp

lemma py_range_set: "set (py_range a b) = {i. a \<le> i \<and> i < b}"
  by (auto simp: py_range_def)

lemma py_range_last: "a < b \<Longrightarrow> py_range a b \<noteq> [] \<and> last (py_range a b) = b - 1"
  using py_range_split [of a "b - 1" b] by (simp add: py_range_empty)

lemma draw_ray_unfold:
  assumes "getnum params ''x'' = Inr x" and "getnum params ''y'' = Inr y"
    and "getnum params ''track_width'' = Inr track_width"
    and "get_distance_list \<lparr>coord_0 = x, coord_1 = y\<rparr> waypoints = (dl, md, mi, len)"
  shows "draw_ray params waypoints sight =
           thenE (draw_ray_loop dl (track_width * sight) mi len mi (py_range 5 (len div 10)))
             (\<lambda>target_idx. Inr (target_idx, mi))"
  using assms by (simp add: draw_ray_def Let_def floor_tenth_div)

text \<open>
  C5: \<^verbatim>\<open>draw_ray\<close> on a table of \<open>N\<close> waypoints returns the nearest index \<open>min_idx\<close> and a target
  index. With \<open>N div 10 \<le> 5\<close> nothing is scanned and the target is \<open>min_idx\<close>. Otherwise the
  offsets 5 up to \<open>N div 10 - 1\<close> are scanned in order, indices taken modulo \<open>N\<close>: the target
  is the first scanned index whose distance reaches \<open>track_width * sight\<close>, and the last
  scanned index when none does.
\<close>

theorem draw_ray_scan:
  assumes "getnum params ''x'' = Inr x" and "getnum params ''y'' = Inr y"
    and "getnum params ''track_width'' = Inr track_width"
  shows "\<exists>target_idx min_idx dist_list min_dist.
           get_distance_list \<lparr>coord_0 = x, coord_1 = y\<rparr> waypoints =
             (dist_list, min_dist, min_idx, int (length waypoints))
         \<and> draw_ray params waypoints sight = Inr (target_idx, min_idx)
         \<and> (int (length waypoints) div 10 \<le> 5 \<longrightarrow> target_idx = min_idx)
         \<and> (\<forall>i. 5 \<le> i \<and> i < int (length waypoints) div 10
               \<and> track_width * sight \<le> dist_list ! nat ((min_idx + i) mod int (length waypoints))
               \<and> (\<forall>j. 5 \<le> j \<and> j < i \<longrightarrow>
                     dist_list ! nat ((min_idx + j) mod int (length waypoints)) < track_width * sight)
               \<longrightarrow> target_idx = (min_idx + i) mod int (length waypoints))
         \<and> (5 < int (length waypoints) div 10
               \<and> (\<forall>j. 5 \<le> j \<and> j < int (length waypoints) div 10 \<longrightarrow>
                     dist_list ! nat ((min_idx + j) mod int (length waypoints)) < track_width * sight)
               \<longrightarrow> target_idx = (min_idx + (int (length waypoints) div 10 - 1)) mod int (length waypoints))"
proof -
  let ?car = "\<lparr>coord_0 = x, coord_1 = y\<rparr>"
  let ?len = "int (length waypoints)"
  let ?td = "track_width * sight"
  obtain md mi where g: "get_distance_list ?car waypoints = (map (get_distance ?car) waypoints, md, mi, ?len)"
    using get_distance_list_inv by blast
  let ?dl = "map (get_distance ?car) waypoints"
  let ?loop = "draw_ray_loop ?dl ?td mi ?len mi (py_range 5 (?len div 10))"
  have len: "?len = int (length ?dl)" by simp
  have unfold: "draw_ray params waypoints sight = thenE ?loop (\<lambda>target_idx. Inr (target_idx, mi))"
    using assms g by (rule draw_ray_unfold)
  show ?thesis
  proof (cases "?len div 10 \<le> 5")
    case True
    then have "?loop = Inr mi" by (simp add: py_range_empty)
    then have "draw_ray params waypoints sight = Inr (mi, mi)" using unfold by simp
    with g True show ?thesis by auto
  next
    case False
    then have pos: "0 < ?len" by linarith
    obtain r where r: "?loop = Inr r"
      using draw_ray_loop_total [OF pos len] by blast
    have dr: "draw_ray params waypoints sight = Inr (r, mi)" using unfold r by simp
    have brk: "r = (mi + i) mod ?len"
      if i: "5 \<le> i" "i < ?len div 10" and hit: "?td \<le> ?dl ! nat ((mi + i) mod ?len)"
        and before: "\<forall>j. 5 \<le> j \<and> j < i \<longrightarrow> ?dl ! nat ((mi + j) mod ?len) < ?td" for i
    proof -
      have split: "py_range 5 (?len div 10) = py_range 5 i @ i # py_range (i + 1) (?len div 10)"
        using i by (rule py_range_split)
      have "\<forall>j \<in> set (py_range 5 i). ?dl ! nat ((mi + j) mod ?len) < ?td"
        using before by (simp add: py_range_set)
      from draw_ray_loop_break [OF pos len this hit] split r show ?thesis by simp
    qed
    have exh: "r = (mi + (?len div 10 - 1)) mod ?len"
      if all: "\<forall>j. 5 \<le> j \<and> j < ?len div 10 \<longrightarrow> ?dl ! nat ((mi + j) mod ?len) < ?td"
    proof -
      have "\<forall>j \<in> set (py_range 5 (?len div 10)). ?dl ! nat ((mi + j) mod ?len) < ?td"
        using all by (simp add: py_range_set)
      from draw_ray_loop_exhaust [OF pos len this] r py_range_last [of 5 "?len div 10"] False
      show ?thesis by simp
    qed
    show ?thesis
      apply (rule exI [of _ r], rule exI [of _ mi], rule exI [of _ ?dl], rule exI [of _ md])
      using g dr False brk exh by blast
  qed
qed

section \<open>The example call\<close>

lemma example_keys:
  "getnum example_call ''x'' = Inr 1.17885" "getnum example_call ''y'' = Inr (- 0.02819)"
  "getnum example_call ''heading'' = Inr 0" "getnum example_call ''steering_angle'' = Inr 0"
  "getnum example_call ''speed'' = Inr 4" "getnum example_call ''track_width'' = Inr 0.8"
  "getnum example_call ''progress'' = Inr 1"
  by (simp_all add: example_call_def getnum_def getitem_def thenE_def)

lemma track_length: "length get_racing_track = 120"
  by (simp add: get_racing_track_def)

lemma track_0: "get_racing_track ! 0 = WP3 1.17885 (- 0.02819) 4"
  by (simp add: get_racing_track_def)

lemma track_5: "get_racing_track ! 5 = WP3 0.16067 1.08251 3.5"
  by (simp add: get_racing_track_def)

lemma example_nearest:
  "get_distance_list \<lparr>coord_0 = 1.17885, coord_1 = - 0.02819\<rparr> get_racing_track =
     (map (get_distance \<lparr>coord_0 = 1.17885, coord_1 = - 0.02819\<rparr>) get_racing_track, Finite 0, 0, 120)"
proof -
  have ne: "get_racing_track \<noteq> []" using track_length by auto
  have "get_distance \<lparr>coord_0 = 1.17885, coord_1 = - 0.02819\<rparr> (get_racing_track ! 0) = 0"
    by (simp add: track_0 WP3_def get_distance_def)
  from get_distance_list_on_first [OF ne this] show ?thesis by (simp add: track_length)
qed

lemma example_draw_ray: "draw_ray example_call get_racing_track 0.5 = Inr (5, 0)"
proof -
  let ?car = "\<lparr>coord_0 = 1.17885, coord_1 = - 0.02819\<rparr>"
  let ?dl = "map (get_distance ?car) get_racing_track"
  have len: "(120::int) = int (length ?dl)" by (simp add: track_length)
  have d5: "?dl ! 5 = get_distance ?car (get_racing_track ! 5)"
    by (rule nth_map) (simp add: track_length)
  have "(0.4::real) \<le> get_distance ?car (get_racing_track ! 5)"
    unfolding get_distance_def track_5 WP3_def
    by (rule real_le_rsqrt) (simp add: power2_eq_square)
  then have hit: "0.8 * 0.5 \<le> ?dl ! nat ((0 + 5) mod 120)" using d5 by simp
  have rng: "py_range 5 (120 div 10) = [] @ 5 # py_range 6 12"
    using py_range_split [of 5 5 12] by (simp add: py_range_empty)
  have "draw_ray_loop ?dl (0.8 * 0.5) 0 120 0 ([] @ 5 # py_range 6 12) = Inr ((0 + 5) mod 120)"
    by (rule draw_ray_loop_break [OF _ len _ hit]) simp_all
  then show ?thesis
    using draw_ray_unfold [OF example_keys(1,2,6) example_nearest, of "0.5"] rng by simp
qed

theorem draw_ray_scan_witness:
  "getnum example_call ''x'' = Inr 1.17885 \<and> getnum example_call ''y'' = Inr (- 0.02819)
   \<and> getnum example_call ''track_width'' = Inr 0.8
   \<and> draw_ray example_call get_racing_track 0.5 = Inr (5, 0)"
  using draw_ray_scan [OF example_keys(1,2,6), of get_racing_track "0.5"]
    example_keys(1,2,6) example_draw_ray
  by simp

section \<open>The sub-scores\<close>

lemma ideal_steering_range: "- 30 \<le> ideal_steering x y h t \<and> ideal_steering x y h t \<le> 30"
  by (simp add: ideal_steering_def)

lemma reward_max_val: "reward_max = 5"
  by (simp add: reward_max_def)

lemma reward_max2_val: "reward_max2 = 10"
  by (simp add: reward_max2_def)

lemma unit_clamp:
  fixes q :: real
  assumes "0 \<le> q"
  shows "0.001 \<le> max (min (1.001 - q) 5) 0.001 \<and> max (min (1.001 - q) 5) 0.001 \<le> 1.001"
  using assms by (auto simp: max_def min_def)

lemma unit_clamp_id:
  fixes q :: real
  assumes "0 \<le> q" and "q \<le> 1"
  shows "max (min (1.001 - q) 5) 0.001 = 1.001 - q"
  using assms by (auto simp: max_def min_def)

lemma score_steering_raw:
  assumes "getnum p ''x'' = Inr x" and "getnum p ''y'' = Inr y"
    and "getnum p ''heading'' = Inr h" and "getnum p ''steering_angle'' = Inr st"
  shows "score_steering p t =
           Inr (max (min (if 30 < \<bar>st - ideal_steering x y h t\<bar> then 0.001
                          else 1.001 - \<bar>st - ideal_steering x y h t\<bar> / 30) reward_max) reward_min)"
  by (simp only: score_steering_def assms thenE_Inr Let_def ideal_steering_def coor.select_convs)

lemma score_steering_value:
  assumes "getnum p ''x'' = Inr x" and "getnum p ''y'' = Inr y"
    and "getnum p ''heading'' = Inr h" and "getnum p ''steering_angle'' = Inr st"
  shows "score_steering p t =
           Inr (if 30 < \<bar>st - ideal_steering x y h t\<bar> then 0.001
                else 1.001 - \<bar>st - ideal_steering x y h t\<bar> / 30)"
proof -
  let ?d = "\<bar>st - ideal_steering x y h t\<bar>"
  have raw: "score_steering p t =
      Inr (max (min (if 30 < ?d then 0.001 else 1.001 - ?d / 30) 5) 0.001)"
    using score_steering_raw [OF assms, of t] by (simp only: reward_max_val reward_min_def)
  show ?thesis
  proof (cases "30 < ?d")
    case True
    have "max (min (0.001::real) 5) 0.001 = 0.001" by simp
    with raw True show ?thesis by (simp only: if_True)
  next
    case False
    then have "?d / 30 \<le> 1" by simp
    moreover have "0 \<le> ?d / 30" by simp
    ultimately have "max (min (1.001 - ?d / 30) 5) 0.001 = 1.001 - ?d / 30"
      by (rule unit_clamp_id [rotated])
    with raw False show ?thesis by (simp only: if_False)
  qed
qed

lemma score_steering2_value:
  assumes "getnum p ''x'' = Inr x" and "getnum p ''y'' = Inr y"
    and "getnum p ''heading'' = Inr h" and "getnum p ''steering_angle'' = Inr st"
  shows "score_steering2 p t =
           Inr (max (min ((1.1 - \<bar>st - ideal_steering x y h t\<bar> / 30.0) * reward_max2) reward_max2)
                  reward_min2)"
  by (simp only: score_steering2_def assms thenE_Inr Let_def ideal_steering_def coor.select_convs)

lemma clamp_bounds:
  "reward_min \<le> max (min s reward_max) reward_min \<and> max (min s reward_max) reward_min \<le> reward_max"
  by (simp add: reward_min_def reward_max_def)

lemma clamp_bounds_flipped:
  "reward_min \<le> max reward_min (min s reward_max) \<and> max reward_min (min s reward_max) \<le> reward_max"
  by (simp add: reward_min_def reward_max_def)

lemma score_steering_bounds:
  assumes "getnum p ''x'' = Inr x" and "getnum p ''y'' = Inr y"
    and "getnum p ''heading'' = Inr h" and "getnum p ''steering_angle'' = Inr st"
  shows "\<exists>s. score_steering p t = Inr s \<and> reward_min \<le> s \<and> s \<le> reward_max"
  using score_steering_raw [OF assms, of t] clamp_bounds by blast

lemma score_speed_bounds:
  assumes "getnum p ''speed'' = Inr sp"
  shows "\<exists>s. score_speed p t = Inr s \<and> reward_min \<le> s \<and> s \<le> reward_max"
proof -
  have "score_speed p t = Inr (max (min (1.001 - \<bar>sp - coord_2 t\<bar> / 3) reward_max) reward_min)"
    using assms by (simp add: score_speed_def Let_def)
  with clamp_bounds show ?thesis by blast
qed

lemma score_speed_steering_bounds:
  assumes "getnum p ''speed'' = Inr sp" and "getnum p ''steering_angle'' = Inr st"
  shows "\<exists>s. score_speed_steering p = Inr s \<and> reward_min \<le> s \<and> s \<le> reward_max"
proof -
  have "\<exists>r. score_speed_steering p = Inr (max reward_min (min r reward_max))"
    unfolding score_speed_steering_def Let_def assms thenE_Inr by (rule exI) (rule refl)
  with clamp_bounds_flipped show ?thesis by blast
qed

lemma score_center_bounds:
  assumes "getnum p ''track_width'' = Inr tw" and "getnum p ''x'' = Inr x"
    and "getnum p ''y'' = Inr y" and "tw \<noteq> 0"
  shows "\<exists>s. score_center p t = Inr s \<and> reward_min \<le> s \<and> s \<le> reward_max"
proof -
  have "py_div \<bar>tw - get_distance \<lparr>coord_0 = x, coord_1 = y\<rparr>
            \<lparr>coord_0 = coord_0 t, coord_1 = coord_1 t\<rparr>\<bar> tw \<noteq> Inl ZeroDivisionError"
    using assms(4) by (simp add: py_div_def)
  have "\<exists>r. score_center p t = Inr (max (min r reward_max) reward_min)"
    unfolding score_center_def Let_def assms(1,2,3) thenE_Inr py_div_def if_not_P [OF assms(4)]
    by (rule exI) (rule refl)
  with clamp_bounds show ?thesis by blast
qed

lemma score_center_zero_width:
  assumes "getnum p ''track_width'' = Inr 0" and "getnum p ''x'' = Inr x"
    and "getnum p ''y'' = Inr y"
  shows "score_center p t = Inl ZeroDivisionError"
  using assms by (simp add: score_center_def Let_def py_div_def)

lemma draw_ray_loop_range:
  assumes "0 < len" and "len = int (length dl)"
  shows "0 \<le> t \<Longrightarrow> t < len \<Longrightarrow>
           \<exists>r. draw_ray_loop dl td mi len t offsets = Inr r \<and> 0 \<le> r \<and> r < len"
proof (induction offsets arbitrary: t)
  case Nil
  then show ?case by simp
next
  case (Cons j offsets)
  have "0 \<le> (mi + j) mod len" "(mi + j) mod len < len" using assms(1) by simp_all
  from Cons.IH [OF this] show ?case
    using assms(1) by (simp add: scanned_in_range [OF assms] Let_def)
qed

lemma draw_ray_valid:
  assumes "getnum p ''x'' = Inr x" and "getnum p ''y'' = Inr y"
    and "getnum p ''track_width'' = Inr tw" and "waypoints \<noteq> []"
  shows "\<exists>t m. draw_ray p waypoints sight = Inr (t, m)
           \<and> 0 \<le> t \<and> t < int (length waypoints) \<and> 0 \<le> m \<and> m < int (length waypoints)"
proof -
  let ?car = "\<lparr>coord_0 = x, coord_1 = y\<rparr>"
  let ?dl = "map (get_distance ?car) waypoints"
  let ?len = "int (length waypoints)"
  obtain md mi where g: "get_distance_list ?car waypoints = (?dl, md, mi, ?len)"
    and f: "first_minimum ?dl md mi"
    using get_distance_list_inv by blast
  from f assms(4) have mi: "0 \<le> mi" "mi < ?len" by (simp_all add: first_minimum_def)
  have pos: "0 < ?len" using assms(4) by simp
  have len: "?len = int (length ?dl)" by simp
  obtain r where "draw_ray_loop ?dl (tw * sight) mi ?len mi (py_range 5 (?len div 10)) = Inr r"
    and "0 \<le> r" and "r < ?len"
    using draw_ray_loop_range [OF pos len mi] by blast
  then show ?thesis
    using draw_ray_unfold [OF assms(1,2,3) g, of sight] mi by simp
qed

section \<open>The reward functions, stage by stage\<close>

lemma track2_length: "length get_racing_track2 = 121"
  by (simp add: get_racing_track2_def)

lemma reward_function_stages:
  assumes "getnum p ''x'' = Inr x" and "getnum p ''y'' = Inr y"
    and "draw_ray p get_racing_track (if y < - x then 0.25 else 0.5) = Inr (t, m)"
    and "py_index get_racing_track t = Inr tgt" and "py_index get_racing_track m = Inr near"
  shows "reward_function p lp =
     (case score_steering p tgt of Inl e \<Rightarrow> (Inl e, lp) | Inr s1 \<Rightarrow>
      case score_speed p near of Inl e \<Rightarrow> (Inl e, lp) | Inr s2 \<Rightarrow>
      case score_center p near of Inl e \<Rightarrow> (Inl e, lp) | Inr s3 \<Rightarrow>
      case score_progress p lp of (Inl e, l) \<Rightarrow> (Inl e, l) | (Inr s4, l) \<Rightarrow>
      case score_speed_steering p of Inl e \<Rightarrow> (Inl e, l) | Inr s5 \<Rightarrow>
        (Inr (s1 + s2 + s3 + s4 + s5), l))"
  using assms
  by (simp add: reward_function_def Let_def split: sum.splits prod.splits)

lemma reward_function2_stages:
  assumes "getitem p ''is_offtrack'' = Inr off" and "\<not> py_truthy off"
    and "getnum p ''x'' = Inr x" and "getnum p ''y'' = Inr y"
    and "draw_ray p get_racing_track2 (if y < - x then 0.5 else 1) = Inr (t, m)"
    and "py_index get_racing_track2 t = Inr tgt" and "py_index get_racing_track2 m = Inr near"
  shows "reward_function2 p =
     (case score_steering2 p tgt of Inl e \<Rightarrow> Inl e | Inr s1 \<Rightarrow>
      case score_speed2 p of Inl e \<Rightarrow> Inl e | Inr s2 \<Rightarrow>
      case score_center2 p near of Inl e \<Rightarrow> Inl e | Inr s3 \<Rightarrow>
      case score_progress2 p of Inl e \<Rightarrow> Inl e | Inr s4 \<Rightarrow>
        Inr (max (min (0.1 * s1 + 0.5 * s2 + 0.3 * s3 + 0.1 * s4) reward_max2) reward_min2))"
  using assms
  by (simp add: reward_function2_def Let_def split: sum.splits)

lemma getnum_present: "p k \<noteq> None \<Longrightarrow> \<exists>v. getnum p k = Inr v"
  by (auto simp: getnum_def getitem_def)

lemma telemetry_keys:
  assumes "telemetry p"
  obtains x y h st sp tw pr where
    "getnum p ''x'' = Inr x" "getnum p ''y'' = Inr y" "getnum p ''heading'' = Inr h"
    "getnum p ''steering_angle'' = Inr st" "getnum p ''speed'' = Inr sp"
    "getnum p ''track_width'' = Inr tw" "getnum p ''progress'' = Inr pr"
proof -
  have "p ''x'' \<noteq> None" "p ''y'' \<noteq> None" "p ''heading'' \<noteq> None" "p ''steering_angle'' \<noteq> None"
    "p ''speed'' \<noteq> None" "p ''track_width'' \<noteq> None" "p ''progress'' \<noteq> None"
    using assms by (simp_all add: telemetry_def required_keys_def)
  then show ?thesis using that getnum_present by metis
qed

lemma track_index:
  "0 \<le> i \<Longrightarrow> i < 120 \<Longrightarrow> py_index get_racing_track i = Inr (get_racing_track ! nat i)"
  by (rule py_index_in_range) (simp_all add: track_length)

lemma track2_index:
  "0 \<le> i \<Longrightarrow> i < 121 \<Longrightarrow> py_index get_racing_track2 i = Inr (get_racing_track2 ! nat i)"
  by (rule py_index_in_range) (simp_all add: track2_length)

lemma reward_function_total:
  assumes "getnum p ''x'' = Inr x" and "getnum p ''y'' = Inr y" and "getnum p ''heading'' = Inr h"
    and "getnum p ''steering_angle'' = Inr st" and "getnum p ''speed'' = Inr sp"
    and "getnum p ''track_width'' = Inr tw" and "getnum p ''progress'' = Inr pr"
    and "tw \<noteq> 0"
  shows "\<exists>s1 s2 s3 s5.
           reward_function p lp =
             (Inr (s1 + s2 + s3 + max ((pr - lp) * reward_max) reward_min + s5), pr)
         \<and> reward_min \<le> s1 \<and> s1 \<le> reward_max \<and> reward_min \<le> s2 \<and> s2 \<le> reward_max
         \<and> reward_min \<le> s3 \<and> s3 \<le> reward_max \<and> reward_min \<le> s5 \<and> s5 \<le> reward_max"
proof -
  have ne: "get_racing_track \<noteq> []" using track_length by auto
  obtain t m where dr: "draw_ray p get_racing_track (if y < - x then 0.25 else 0.5) = Inr (t, m)"
    and t': "0 \<le> t" "t < int (length get_racing_track)" and m': "0 \<le> m" "m < int (length get_racing_track)"
    using draw_ray_valid [OF assms(1,2,6) ne, of "if y < - x then 0.25 else 0.5"] by blast
  have t: "0 \<le> t" "t < 120" and m: "0 \<le> m" "m < 120"
    using t' m' by (simp_all add: track_length)
  let ?tgt = "get_racing_track ! nat t" and ?near = "get_racing_track ! nat m"
  obtain s1 where s1: "score_steering p ?tgt = Inr s1" "reward_min \<le> s1" "s1 \<le> reward_max"
    using score_steering_bounds [OF assms(1,2,3,4)] by blast
  obtain s2 where s2: "score_speed p ?near = Inr s2" "reward_min \<le> s2" "s2 \<le> reward_max"
    using score_speed_bounds [OF assms(5)] by blast
  obtain s3 where s3: "score_center p ?near = Inr s3" "reward_min \<le> s3" "s3 \<le> reward_max"
    using score_center_bounds [OF assms(6,1,2,8)] by blast
  obtain s5 where s5: "score_speed_steering p = Inr s5" "reward_min \<le> s5" "s5 \<le> reward_max"
    using score_speed_steering_bounds [OF assms(5,4)] by blast
  have s4: "score_progress p lp = (Inr (max ((pr - lp) * reward_max) reward_min), pr)"
    using assms(7) by (rule score_progress_Inr)
  have "reward_function p lp =
          (Inr (s1 + s2 + s3 + max ((pr - lp) * reward_max) reward_min + s5), pr)"
    using reward_function_stages [OF assms(1,2) dr track_index [OF t] track_index [OF m], of lp]
    by (simp only: s1(1) s2(1) s3(1) s4 s5(1) sum.case prod.case)
  with s1 s2 s3 s5 show ?thesis by blast
qed

lemma reward_function_zero_width:
  assumes "getnum p ''x'' = Inr x" and "getnum p ''y'' = Inr y" and "getnum p ''heading'' = Inr h"
    and "getnum p ''steering_angle'' = Inr st" and "getnum p ''speed'' = Inr sp"
    and "getnum p ''track_width'' = Inr 0"
  shows "reward_function p lp = (Inl ZeroDivisionError, lp)"
proof -
  have ne: "get_racing_track \<noteq> []" using track_length by auto
  obtain t m where dr: "draw_ray p get_racing_track (if y < - x then 0.25 else 0.5) = Inr (t, m)"
    and t': "0 \<le> t" "t < int (length get_racing_track)" and m': "0 \<le> m" "m < int (length get_racing_track)"
    using draw_ray_valid [OF assms(1,2,6) ne, of "if y < - x then 0.25 else 0.5"] by blast
  have t: "0 \<le> t" "t < 120" and m: "0 \<le> m" "m < 120"
    using t' m' by (simp_all add: track_length)
  let ?tgt = "get_racing_track ! nat t" and ?near = "get_racing_track ! nat m"
  obtain s1 where s1: "score_steering p ?tgt = Inr s1"
    using score_steering_bounds [OF assms(1,2,3,4)] by blast
  obtain s2 where s2: "score_speed p ?near = Inr s2"
    using score_speed_bounds [OF assms(5)] by blast
  have s3: "score_center p ?near = Inl ZeroDivisionError"
    using assms(6,1,2) by (rule score_center_zero_width)
  show ?thesis
    using reward_function_stages [OF assms(1,2) dr track_index [OF t] track_index [OF m], of lp]
    by (simp only: s1 s2 s3 sum.case)
qed

lemma score_speed2_Inr:
  "getnum p ''speed'' = Inr sp \<Longrightarrow> \<exists>s. score_speed2 p = Inr s"
  by (simp add: score_speed2_def Let_def)

lemma score_center2_Inr:
  "getnum p ''x'' = Inr x \<Longrightarrow> getnum p ''y'' = Inr y \<Longrightarrow> \<exists>s. score_center2 p t = Inr s"
  by (simp add: score_center2_def Let_def)

lemma score_progress2_Inr:
  "getnum p ''progress'' = Inr pr \<Longrightarrow> \<exists>s. score_progress2 p = Inr s"
  by (simp add: score_progress2_def Let_def)

lemma clamp2_bounds:
  "reward_min2 \<le> max (min s reward_max2) reward_min2 \<and> max (min s reward_max2) reward_min2 \<le> reward_max2"
  by (simp add: reward_min2_def reward_max2_def)

lemma reward_function2_total:
  assumes "getnum p ''x'' = Inr x" and "getnum p ''y'' = Inr y" and "getnum p ''heading'' = Inr h"
    and "getnum p ''steering_angle'' = Inr st" and "getnum p ''speed'' = Inr sp"
    and "getnum p ''track_width'' = Inr tw" and "getnum p ''progress'' = Inr pr"
    and "p ''is_offtrack'' = Some off"
  shows "\<exists>r. reward_function2 p = Inr r \<and> reward_min2 \<le> r \<and> r \<le> reward_max2"
proof (cases "py_truthy off")
  case True
  then have "reward_function2 p = Inr 0.001"
    using assms(8) by (simp add: reward_function2_def getitem_def)
  moreover have "reward_min2 \<le> 0.001 \<and> 0.001 \<le> reward_max2"
    by (simp add: reward_min2_def reward_max2_def)
  ultimately show ?thesis by blast
next
  case False
  have off: "getitem p ''is_offtrack'' = Inr off" using assms(8) by (simp add: getitem_def)
  have ne: "get_racing_track2 \<noteq> []" using track2_length by auto
  obtain t m where dr: "draw_ray p get_racing_track2 (if y < - x then 0.5 else 1) = Inr (t, m)"
    and t': "0 \<le> t" "t < int (length get_racing_track2)" and m': "0 \<le> m" "m < int (length get_racing_track2)"
    using draw_ray_valid [OF assms(1,2,6) ne, of "if y < - x then 0.5 else 1"] by blast
  have t: "0 \<le> t" "t < 121" and m: "0 \<le> m" "m < 121"
    using t' m' by (simp_all add: track2_length)
  let ?tgt = "get_racing_track2 ! nat t" and ?near = "get_racing_track2 ! nat m"
  obtain s1 where s1: "score_steering2 p ?tgt = Inr s1"
    using score_steering2_value [OF assms(1,2,3,4)] by blast
  obtain s2 where s2: "score_speed2 p = Inr s2"
    using score_speed2_Inr [OF assms(5)] by blast
  obtain s3 where s3: "score_center2 p ?near = Inr s3"
    using score_center2_Inr [OF assms(1,2)] by blast
  obtain s4 where s4: "score_progress2 p = Inr s4"
    using score_progress2_Inr [OF assms(7)] by blast
  have "reward_function2 p =
          Inr (max (min (0.1 * s1 + 0.5 * s2 + 0.3 * s3 + 0.1 * s4) reward_max2) reward_min2)"
    using reward_function2_stages [OF off False assms(1,2) dr track2_index [OF t] track2_index [OF m]]
    by (simp only: s1 s2 s3 s4 sum.case)
  with clamp2_bounds show ?thesis by blast
qed

section \<open>The reward of the example call\<close>

lemma atan2_second_quadrant:
  assumes "x < 0" and "0 < y"
  shows "pi / 2 < atan2 y x \<and> atan2 y x < pi"
proof -
  have "y / x < 0" using assms by (simp add: divide_pos_neg)
  then have "arctan (y / x) < 0" by (simp add: arctan_less_zero_iff)
  moreover have "- (pi / 2) < arctan (y / x)" by (rule arctan_lbound)
  moreover have "atan2 y x = arctan (y / x) + pi" using assms by (simp add: atan2_def)
  ultimately show ?thesis by simp
qed

lemma get_difference_degrees_small:
  assumes "0 \<le> a" and "a < pi"
  shows "get_difference_degrees a 0 = degrees a"
proof -
  have "0 \<le> a / (2 * pi)" using assms by simp
  moreover have "a / (2 * pi) < 1" using assms by simp
  ultimately have "\<lfloor>a / (2 * pi)\<rfloor> = 0" by linarith
  then have "py_fmod a (2 * pi) = a" by (simp add: py_fmod_def)
  then show ?thesis using assms by (simp add: get_difference_degrees_def Let_def)
qed

lemma ideal_steering_behind_left:
  assumes "coord_0 t - x < 0" and "0 < coord_1 t - y"
  shows "ideal_steering x y 0 t = 30"
proof -
  let ?a = "atan2 (coord_1 t - y) (coord_0 t - x)"
  have a: "pi / 2 < ?a" "?a < pi" using atan2_second_quadrant [OF assms] by simp_all
  have "0 \<le> ?a" using a(1) pi_gt_zero by linarith
  then have g: "get_difference_degrees ?a 0 = degrees ?a"
    using a(2) by (rule get_difference_degrees_small)
  have "90 * pi < ?a * 180" using a(1) by simp
  then have "90 < ?a * 180 / pi" by (simp add: pos_less_divide_eq)
  then have "90 < degrees ?a" by (simp only: degrees_def)
  then have "max (- 30) (min 30 (degrees ?a)) = 30" by simp
  then show ?thesis by (simp add: ideal_steering_def radians_def g)
qed

lemma example_sub_scores:
  "score_steering example_call (get_racing_track ! 5) = Inr 0.001"
  "score_speed example_call (get_racing_track ! 0) = Inr 1.001"
  "score_center example_call (get_racing_track ! 0) = Inr 0.001"
  "score_progress example_call 0 = (Inr 5, 1)"
  "score_speed_steering example_call = Inr 1"
proof -
  have "ideal_steering 1.17885 (- 0.02819) 0 (get_racing_track ! 5) = 30"
    by (rule ideal_steering_behind_left) (simp_all add: track_5 WP3_def)
  then show "score_steering example_call (get_racing_track ! 5) = Inr 0.001"
    using score_steering_value [OF example_keys(1,2,3,4), of "get_racing_track ! 5"] by simp
  show "score_speed example_call (get_racing_track ! 0) = Inr 1.001"
    by (simp add: score_speed_def example_keys track_0 WP3_def Let_def reward_max_def reward_min_def)
  show "score_center example_call (get_racing_track ! 0) = Inr 0.001"
    by (simp add: score_center_def example_keys track_0 WP3_def Let_def py_div_def get_distance_def
          reward_max_def reward_min_def)
  show "score_progress example_call 0 = (Inr 5, 1)"
    using score_progress_Inr [OF example_keys(7), of 0]
    by (simp add: reward_max_def reward_min_def)
  show "score_speed_steering example_call = Inr 1"
    by (simp add: score_speed_steering_def example_keys Let_def reward_max_def reward_min_def)
qed

lemma example_reward: "reward_function example_call 0 = (Inr 7.003, 1)"
proof -
  have dr: "draw_ray example_call get_racing_track
              (if - 0.02819 < - (1.17885::real) then 0.25 else 0.5) = Inr (5, 0)"
    using example_draw_ray by simp
  have i5: "py_index get_racing_track 5 = Inr (get_racing_track ! 5)"
    using track_index [of 5] by simp
  have i0: "py_index get_racing_track 0 = Inr (get_racing_track ! 0)"
    using track_index [of 0] by simp
  show ?thesis
    using reward_function_stages [OF example_keys(1,2) dr i5 i0, of 0]
    by (simp add: example_sub_scores)
qed

lemma example2_keys:
  "getnum example2_call ''x'' = Inr 1.17885" "getnum example2_call ''y'' = Inr (- 0.02819)"
  "getnum example2_call ''heading'' = Inr 0" "getnum example2_call ''steering_angle'' = Inr (- 1)"
  "getnum example2_call ''speed'' = Inr 4" "getnum example2_call ''track_width'' = Inr 0.8"
  "getnum example2_call ''progress'' = Inr 0"
  by (simp_all add: example2_call_def getnum_def getitem_def)

lemma zero_width_keys:
  "getnum zero_width_call ''x'' = Inr 1.17885" "getnum zero_width_call ''y'' = Inr (- 0.02819)"
  "getnum zero_width_call ''heading'' = Inr 0" "getnum zero_width_call ''steering_angle'' = Inr 0"
  "getnum zero_width_call ''speed'' = Inr 4" "getnum zero_width_call ''track_width'' = Inr 0"
  "getnum zero_width_call ''progress'' = Inr 0"
  by (simp_all add: zero_width_call_def getnum_def getitem_def)

lemma example_telemetry:
  "telemetry example_call" "telemetry example2_call" "telemetry zero_width_call"
  by (simp_all add: telemetry_def required_keys_def example_call_def example2_call_def
        zero_width_call_def)

text \<open>
  C1 (as amended): with every key present, the weighted variant returns a reward between
  \<open>reward_min2\<close> and \<open>reward_max2\<close>. The additive variant, for a track width other than zero,
  returns the plain sum of its five sub-scores: at least \<open>reward_min\<close>, not negative, and at
  most four times \<open>reward_max\<close> plus the progress score, which has no upper clamp.
\<close>

theorem reward_bounds:
  assumes "telemetry p"
  shows "(getnum p ''track_width'' \<noteq> Inr 0 \<longrightarrow>
            (\<exists>r pr. getnum p ''progress'' = Inr pr \<and> reward_function p lp = (Inr r, pr)
               \<and> reward_min \<le> r \<and> 0 \<le> r
               \<and> r \<le> 4 * reward_max + max ((pr - lp) * reward_max) reward_min))
       \<and> (p ''is_offtrack'' \<noteq> None \<longrightarrow>
            (\<exists>r. reward_function2 p = Inr r \<and> reward_min2 \<le> r \<and> r \<le> reward_max2 \<and> 0 \<le> r))"
proof -
  obtain x y h st sp tw pr where k:
    "getnum p ''x'' = Inr x" "getnum p ''y'' = Inr y" "getnum p ''heading'' = Inr h"
    "getnum p ''steering_angle'' = Inr st" "getnum p ''speed'' = Inr sp"
    "getnum p ''track_width'' = Inr tw" "getnum p ''progress'' = Inr pr"
    using assms by (rule telemetry_keys)
  have additive: "\<exists>r pr. getnum p ''progress'' = Inr pr \<and> reward_function p lp = (Inr r, pr)
               \<and> reward_min \<le> r \<and> 0 \<le> r
               \<and> r \<le> 4 * reward_max + max ((pr - lp) * reward_max) reward_min"
    if width: "getnum p ''track_width'' \<noteq> Inr 0"
  proof -
    have "tw \<noteq> 0" using width k(6) by auto
    from reward_function_total [OF k this, of lp]
    obtain s1 s2 s3 s5 where
      r: "reward_function p lp =
            (Inr (s1 + s2 + s3 + max ((pr - lp) * reward_max) reward_min + s5), pr)"
      and b: "reward_min \<le> s1" "s1 \<le> reward_max" "reward_min \<le> s2" "s2 \<le> reward_max"
        "reward_min \<le> s3" "s3 \<le> reward_max" "reward_min \<le> s5" "s5 \<le> reward_max"
      by blast
    let ?s4 = "max ((pr - lp) * reward_max) reward_min"
    let ?r = "s1 + s2 + s3 + ?s4 + s5"
    have pos: "0 < reward_min" by (simp add: reward_min_def)
    have s4: "reward_min \<le> ?s4" by simp
    have "reward_min \<le> ?r" using b s4 pos by linarith
    moreover have "0 \<le> ?r" using b s4 pos by linarith
    moreover have "?r \<le> 4 * reward_max + ?s4" using b by linarith
    ultimately show ?thesis using r k(7) by blast
  qed
  have weighted: "\<exists>r. reward_function2 p = Inr r \<and> reward_min2 \<le> r \<and> r \<le> reward_max2 \<and> 0 \<le> r"
    if present: "p ''is_offtrack'' \<noteq> None"
  proof -
    obtain off where "p ''is_offtrack'' = Some off" using present by blast
    from reward_function2_total [OF k this]
    obtain r where r: "reward_function2 p = Inr r" "reward_min2 \<le> r" "r \<le> reward_max2" by blast
    have "0 < reward_min2" by (simp add: reward_min2_def)
    then have "0 \<le> r" using r(2) by linarith
    with r show ?thesis by blast
  qed
  show ?thesis using additive weighted by blast
qed

theorem reward_bounds_witness:
  "telemetry example2_call \<and> getnum example2_call ''track_width'' \<noteq> Inr 0
   \<and> example2_call ''is_offtrack'' \<noteq> None
   \<and> (\<exists>r. reward_function example2_call 0 = (Inr r, 0) \<and> reward_min \<le> r
           \<and> r \<le> 4 * reward_max + reward_min)
   \<and> (\<exists>r. reward_function2 example2_call = Inr r \<and> reward_min2 \<le> r \<and> r \<le> reward_max2)"
proof -
  have tw: "getnum example2_call ''track_width'' \<noteq> Inr 0" by (simp add: example2_keys)
  have off: "example2_call ''is_offtrack'' \<noteq> None" by (simp add: example2_call_def)
  have m: "max ((0 - 0) * reward_max) reward_min = reward_min" by (simp add: reward_min_def)
  from reward_bounds [OF example_telemetry(2), of 0] tw off
  have "\<exists>r pr. getnum example2_call ''progress'' = Inr pr \<and> reward_function example2_call 0 = (Inr r, pr)
               \<and> reward_min \<le> r \<and> 0 \<le> r
               \<and> r \<le> 4 * reward_max + max ((pr - 0) * reward_max) reward_min"
    and w: "\<exists>r. reward_function2 example2_call = Inr r \<and> reward_min2 \<le> r \<and> r \<le> reward_max2 \<and> 0 \<le> r"
    by blast+
  then have "\<exists>r. reward_function example2_call 0 = (Inr r, 0) \<and> reward_min \<le> r
           \<and> r \<le> 4 * reward_max + reward_min"
    using m by (auto simp: example2_keys)
  with tw off w example_telemetry(2) show ?thesis by blast
qed

text \<open>
  The example call with progress 1.0 after a progress of 0 is rewarded 7.003 by the additive
  variant, above its \<open>reward_max\<close> of 5.
\<close>

theorem reward_exceeds_reward_max:
  "telemetry example_call \<and> reward_function example_call 0 = (Inr 7.003, 1)
   \<and> \<not> (7.003 \<le> reward_max)"
  using example_telemetry(1) example_reward by (simp add: reward_max_def)

section \<open>A track width of zero\<close>

lemma draw_ray_zero_width:
  assumes "getnum p ''x'' = Inr x" and "getnum p ''y'' = Inr y"
    and "getnum p ''track_width'' = Inr 0" and "5 < int (length waypoints) div 10"
  shows "\<exists>m. 0 \<le> m \<and> m < int (length waypoints)
           \<and> draw_ray p waypoints sight = Inr ((m + 5) mod int (length waypoints), m)"
proof -
  let ?car = "\<lparr>coord_0 = x, coord_1 = y\<rparr>"
  let ?dl = "map (get_distance ?car) waypoints"
  let ?len = "int (length waypoints)"
  have ne: "waypoints \<noteq> []" using assms(4) by auto
  obtain md mi where g: "get_distance_list ?car waypoints = (?dl, md, mi, ?len)"
    and f: "first_minimum ?dl md mi"
    using get_distance_list_inv by blast
  from f ne have mi: "0 \<le> mi" "mi < ?len" by (simp_all add: first_minimum_def)
  have pos: "0 < ?len" using ne by simp
  have len: "?len = int (length ?dl)" by simp
  have "0 \<le> (mi + 5) mod ?len" "(mi + 5) mod ?len < ?len" using pos by simp_all
  then have "nat ((mi + 5) mod ?len) < length waypoints" by linarith
  then have "?dl ! nat ((mi + 5) mod ?len) = get_distance ?car (waypoints ! nat ((mi + 5) mod ?len))"
    by (rule nth_map)
  then have hit: "0 * sight \<le> ?dl ! nat ((mi + 5) mod ?len)"
    by (simp add: get_distance_nonneg)
  have rng: "py_range 5 (?len div 10) = [] @ 5 # py_range 6 (?len div 10)"
    using py_range_split [of 5 5 "?len div 10"] assms(4) by (simp add: py_range_empty)
  have "draw_ray_loop ?dl (0 * sight) mi ?len mi ([] @ 5 # py_range 6 (?len div 10))
          = Inr ((mi + 5) mod ?len)"
    by (rule draw_ray_loop_break [OF pos len _ hit]) simp
  then have "draw_ray p waypoints sight = Inr ((mi + 5) mod ?len, mi)"
    using draw_ray_unfold [OF assms(1,2,3) g, of sight] rng by simp
  with mi show ?thesis by blast
qed

text \<open>
  C8 (as amended): with every key present, the weighted variant returns a reward within its
  bounds for every track width, zero included, and the additive variant returns a reward for
  every track width other than zero. With a track width of zero the target distance is zero,
  so the scan of \<^verbatim>\<open>draw_ray\<close> stops at its first offset 5, and \<^verbatim>\<open>score_center\<close> of the
  additive variant divides by the track width unguarded: \<^verbatim>\<open>reward_function\<close> raises
  \<^verbatim>\<open>ZeroDivisionError\<close>.
\<close>

theorem zero_track_width:
  assumes "telemetry p"
  shows "(p ''is_offtrack'' \<noteq> None \<longrightarrow>
            (\<exists>r. reward_function2 p = Inr r \<and> reward_min2 \<le> r \<and> r \<le> reward_max2))
       \<and> (getnum p ''track_width'' \<noteq> Inr 0 \<longrightarrow> (\<exists>r s. reward_function p lp = (Inr r, s)))
       \<and> (getnum p ''track_width'' = Inr 0 \<longrightarrow>
            reward_function p lp = (Inl ZeroDivisionError, lp)
          \<and> (5 < int (length waypoints) div 10 \<longrightarrow>
               (\<exists>m. 0 \<le> m \<and> m < int (length waypoints)
                  \<and> draw_ray p waypoints sight = Inr ((m + 5) mod int (length waypoints), m))))"
proof -
  obtain x y h st sp tw pr where k:
    "getnum p ''x'' = Inr x" "getnum p ''y'' = Inr y" "getnum p ''heading'' = Inr h"
    "getnum p ''steering_angle'' = Inr st" "getnum p ''speed'' = Inr sp"
    "getnum p ''track_width'' = Inr tw" "getnum p ''progress'' = Inr pr"
    using assms by (rule telemetry_keys)
  have weighted: "\<exists>r. reward_function2 p = Inr r \<and> reward_min2 \<le> r \<and> r \<le> reward_max2"
    if present: "p ''is_offtrack'' \<noteq> None"
  proof -
    obtain off where "p ''is_offtrack'' = Some off" using present by blast
    from reward_function2_total [OF k this] show ?thesis .
  qed
  have nonzero: "\<exists>r s. reward_function p lp = (Inr r, s)"
    if width: "getnum p ''track_width'' \<noteq> Inr 0"
  proof -
    have "tw \<noteq> 0" using width k(6) by auto
    from reward_function_total [OF k this, of lp] show ?thesis by blast
  qed
  have zero: "reward_function p lp = (Inl ZeroDivisionError, lp)"
    if width: "getnum p ''track_width'' = Inr 0"
    using reward_function_zero_width [OF k(1,2,3,4,5) width] .
  have scan: "\<exists>m. 0 \<le> m \<and> m < int (length waypoints)
                  \<and> draw_ray p waypoints sight = Inr ((m + 5) mod int (length waypoints), m)"
    if width: "getnum p ''track_width'' = Inr 0" and long: "5 < int (length waypoints) div 10"
    using draw_ray_zero_width [OF k(1,2) width long] .
  show ?thesis using weighted nonzero zero scan by blast
qed

theorem zero_track_width_witness:
  "telemetry zero_width_call \<and> zero_width_call ''is_offtrack'' \<noteq> None
   \<and> getnum zero_width_call ''track_width'' = Inr 0
   \<and> 5 < int (length get_racing_track2) div 10
   \<and> (\<exists>r. reward_function2 zero_width_call = Inr r \<and> reward_min2 \<le> r \<and> r \<le> reward_max2)
   \<and> (\<exists>m. 0 \<le> m \<and> m < 121 \<and> draw_ray zero_width_call get_racing_track2 1 = Inr ((m + 5) mod 121, m))
   \<and> telemetry example_call \<and> getnum example_call ''track_width'' \<noteq> Inr 0
   \<and> (\<exists>r s. reward_function example_call 0 = (Inr r, s))"
proof -
  have off: "zero_width_call ''is_offtrack'' \<noteq> None" by (simp add: zero_width_call_def)
  have long: "5 < int (length get_racing_track2) div 10" by (simp add: track2_length)
  have tw: "getnum example_call ''track_width'' \<noteq> Inr 0" by (simp add: example_keys)
  from zero_track_width [OF example_telemetry(3), of 0 get_racing_track2 1] off long zero_width_keys(6)
  have a: "\<exists>r. reward_function2 zero_width_call = Inr r \<and> reward_min2 \<le> r \<and> r \<le> reward_max2"
    and b: "\<exists>m. 0 \<le> m \<and> m < int (length get_racing_track2)
              \<and> draw_ray zero_width_call get_racing_track2 1
                   = Inr ((m + 5) mod int (length get_racing_track2), m)"
    by blast+
  from zero_track_width [OF example_telemetry(1), of 0 get_racing_track2 1] tw
  have c: "\<exists>r s. reward_function example_call 0 = (Inr r, s)" by blast
  show ?thesis
    using example_telemetry(1,3) off zero_width_keys(6) long a b c tw
    by (simp add: track2_length)
qed

text \<open>
  The example call with a track width of zero makes the additive variant raise.
\<close>

theorem zero_track_width_raises:
  "telemetry zero_width_call \<and> reward_function zero_width_call 0 = (Inl ZeroDivisionError, 0)"
  using example_telemetry(3) reward_function_zero_width [OF zero_width_keys(1,2,3,4,5,6), of 0]
  by simp

section \<open>The shape of the steering score\<close>

lemma additive_curve:
  fixes d d' :: real
  assumes "0 \<le> d"
  shows "(if 30 < d then 0.001 else 1.001 - d / 30) \<le> 1.001
       \<and> ((if 30 < d then 0.001 else 1.001 - d / 30) = 1.001 \<longleftrightarrow> d = 0)
       \<and> (d < d' \<and> d' \<le> 30 \<longrightarrow>
            (if 30 < d' then 0.001 else 1.001 - d' / 30) < (if 30 < d then 0.001 else 1.001 - d / 30))
       \<and> (30 \<le> d \<longrightarrow> (if 30 < d then 0.001 else 1.001 - d / 30) = 0.001)"
  using assms by auto

lemma weighted_linear: "(1.1 - d / 30.0) * (10::real) = 11 - d / 3"
  by (simp add: algebra_simps)

lemma weighted_curve:
  fixes d d' :: real
  shows "max (min (11 - d / 3) 10) 0.001 \<le> 10
       \<and> (max (min (11 - d / 3) 10) 0.001 = 10 \<longleftrightarrow> d \<le> 3)
       \<and> (3 \<le> d \<and> d < d' \<and> d' \<le> 32.997 \<longrightarrow>
            max (min (11 - d' / 3) 10) 0.001 < max (min (11 - d / 3) 10) 0.001)
       \<and> (max (min (11 - d / 3) 10) 0.001 = 0.001 \<longleftrightarrow> 32.997 \<le> d)"
  by (auto simp: max_def min_def)

lemma score_steering2_curve:
  assumes "getnum p ''x'' = Inr x" and "getnum p ''y'' = Inr y"
    and "getnum p ''heading'' = Inr h" and "getnum p ''steering_angle'' = Inr st"
  shows "score_steering2 p t = Inr (max (min (11 - \<bar>st - ideal_steering x y h t\<bar> / 3) 10) 0.001)"
  using score_steering2_value [OF assms, of t]
  by (simp only: weighted_linear reward_max2_val reward_min2_def)

text \<open>
  C6 (as amended): the ideal steering lies in \<open>[-30, 30]\<close>, and with \<open>d\<close> the distance of the
  steering angle from it: in the additive variant the score is at most 1.001, equal to
  1.001 exactly at \<open>d = 0\<close>, strictly decreasing in \<open>d\<close> up to 30, and \<open>reward_min\<close> from 30
  on; in the weighted variant the score is \<open>reward_max2\<close> exactly for \<open>d \<le> 3\<close>, strictly
  decreasing between 3 and 32.997, and \<open>reward_min2\<close> exactly from 32.997 on.
\<close>

theorem steering_score_shape:
  assumes "getnum p ''x'' = Inr x" and "getnum p ''y'' = Inr y"
    and "getnum p ''heading'' = Inr h" and "getnum p ''steering_angle'' = Inr st"
    and "getnum q ''x'' = Inr x'" and "getnum q ''y'' = Inr y'"
    and "getnum q ''heading'' = Inr h'" and "getnum q ''steering_angle'' = Inr st'"
    and "d = \<bar>st - ideal_steering x y h t\<bar>" and "d' = \<bar>st' - ideal_steering x' y' h' t'\<bar>"
  shows "- 30 \<le> ideal_steering x y h t \<and> ideal_steering x y h t \<le> 30
       \<and> (\<exists>s s' w w'.
             score_steering p t = Inr s \<and> score_steering q t' = Inr s'
           \<and> score_steering2 p t = Inr w \<and> score_steering2 q t' = Inr w'
           \<and> s \<le> 1.001 \<and> (s = 1.001 \<longleftrightarrow> st = ideal_steering x y h t)
           \<and> (d < d' \<and> d' \<le> 30 \<longrightarrow> s' < s)
           \<and> (30 \<le> d \<longrightarrow> s = reward_min)
           \<and> w \<le> reward_max2 \<and> (w = reward_max2 \<longleftrightarrow> d \<le> 3)
           \<and> (3 \<le> d \<and> d < d' \<and> d' \<le> 32.997 \<longrightarrow> w' < w)
           \<and> (w = reward_min2 \<longleftrightarrow> 32.997 \<le> d))"
proof -
  let ?f = "\<lambda>d::real. if 30 < d then 0.001 else 1.001 - d / 30"
  let ?g = "\<lambda>d::real. max (min (11 - d / 3) 10) 0.001"
  have s: "score_steering p t = Inr (?f d)"
    using score_steering_value [OF assms(1,2,3,4), of t] assms(9) by simp
  have s': "score_steering q t' = Inr (?f d')"
    using score_steering_value [OF assms(5,6,7,8), of t'] assms(10) by simp
  have w: "score_steering2 p t = Inr (?g d)"
    using score_steering2_curve [OF assms(1,2,3,4), of t] assms(9) by simp
  have w': "score_steering2 q t' = Inr (?g d')"
    using score_steering2_curve [OF assms(5,6,7,8), of t'] assms(10) by simp
  have d0: "0 \<le> d" using assms(9) by simp
  have zero: "d = 0 \<longleftrightarrow> st = ideal_steering x y h t" using assms(9) by auto
  have a: "?f d \<le> 1.001" "?f d = 1.001 \<longleftrightarrow> d = 0"
    "d < d' \<and> d' \<le> 30 \<longrightarrow> ?f d' < ?f d" "30 \<le> d \<longrightarrow> ?f d = 0.001"
    using additive_curve [OF d0, of d'] by blast+
  have b: "?g d \<le> 10" "?g d = 10 \<longleftrightarrow> d \<le> 3"
    "3 \<le> d \<and> d < d' \<and> d' \<le> 32.997 \<longrightarrow> ?g d' < ?g d" "?g d = 0.001 \<longleftrightarrow> 32.997 \<le> d"
    using weighted_curve [of d d'] by blast+
  have "\<exists>s s' w w'.
             score_steering p t = Inr s \<and> score_steering q t' = Inr s'
           \<and> score_steering2 p t = Inr w \<and> score_steering2 q t' = Inr w'
           \<and> s \<le> 1.001 \<and> (s = 1.001 \<longleftrightarrow> st = ideal_steering x y h t)
           \<and> (d < d' \<and> d' \<le> 30 \<longrightarrow> s' < s)
           \<and> (30 \<le> d \<longrightarrow> s = reward_min)
           \<and> w \<le> reward_max2 \<and> (w = reward_max2 \<longleftrightarrow> d \<le> 3)
           \<and> (3 \<le> d \<and> d < d' \<and> d' \<le> 32.997 \<longrightarrow> w' < w)
           \<and> (w = reward_min2 \<longleftrightarrow> 32.997 \<le> d)"
    apply (rule exI [of _ "?f d"], rule exI [of _ "?f d'"])
    apply (rule exI [of _ "?g d"], rule exI [of _ "?g d'"])
    unfolding reward_min_def reward_max2_val reward_min2_def
    using s s' w w' a b zero by blast
  then show ?thesis using ideal_steering_range by blast
qed

lemma track2_0: "get_racing_track2 ! 0 = WP2 1.17885 (- 0.02819)"
  by (simp add: get_racing_track2_def)

lemma track2_5: "get_racing_track2 ! 5 = WP2 0.16067 1.08251"
  by (simp add: get_racing_track2_def)

lemma example2_ideal: "ideal_steering 1.17885 (- 0.02819) 0 (get_racing_track2 ! 5) = 30"
  by (rule ideal_steering_behind_left) (simp_all add: track2_5 WP2_def)

lemma example_ideal: "ideal_steering 1.17885 (- 0.02819) 0 (get_racing_track ! 5) = 30"
  by (rule ideal_steering_behind_left) (simp_all add: track_5 WP3_def)

lemma example2_nearest:
  "get_distance_list \<lparr>coord_0 = 1.17885, coord_1 = - 0.02819\<rparr> get_racing_track2 =
     (map (get_distance \<lparr>coord_0 = 1.17885, coord_1 = - 0.02819\<rparr>) get_racing_track2, Finite 0, 0, 121)"
proof -
  have ne: "get_racing_track2 \<noteq> []" using track2_length by auto
  have "get_distance \<lparr>coord_0 = 1.17885, coord_1 = - 0.02819\<rparr> (get_racing_track2 ! 0) = 0"
    by (simp add: track2_0 WP2_def get_distance_def)
  from get_distance_list_on_first [OF ne this] show ?thesis by (simp add: track2_length)
qed

lemma example2_draw_ray: "draw_ray example2_call get_racing_track2 1 = Inr (5, 0)"
proof -
  let ?car = "\<lparr>coord_0 = 1.17885, coord_1 = - 0.02819\<rparr>"
  let ?dl = "map (get_distance ?car) get_racing_track2"
  have len: "(121::int) = int (length ?dl)" by (simp add: track2_length)
  have d5: "?dl ! 5 = get_distance ?car (get_racing_track2 ! 5)"
    by (rule nth_map) (simp add: track2_length)
  have "(0.8::real) \<le> get_distance ?car (get_racing_track2 ! 5)"
    unfolding get_distance_def track2_5 WP2_def
    by (rule real_le_rsqrt) (simp add: power2_eq_square)
  then have hit: "0.8 * 1 \<le> ?dl ! nat ((0 + 5) mod 121)" using d5 by simp
  have rng: "py_range 5 (121 div 10) = [] @ 5 # py_range 6 12"
    using py_range_split [of 5 5 12] by (simp add: py_range_empty)
  have "draw_ray_loop ?dl (0.8 * 1) 0 121 0 ([] @ 5 # py_range 6 12) = Inr ((0 + 5) mod 121)"
    by (rule draw_ray_loop_break [OF _ len _ hit]) simp_all
  then show ?thesis
    using draw_ray_unfold [OF example2_keys(1,2,6) example2_nearest, of 1] rng by simp
qed

lemma near_ideal_keys:
  "getnum near_ideal_call ''x'' = Inr 1.17885" "getnum near_ideal_call ''y'' = Inr (- 0.02819)"
  "getnum near_ideal_call ''heading'' = Inr 0" "getnum near_ideal_call ''steering_angle'' = Inr 29"
  by (simp_all add: near_ideal_call_def getnum_def getitem_def)

theorem steering_score_shape_witness:
  "getnum example_call ''x'' = Inr 1.17885 \<and> getnum example_call ''y'' = Inr (- 0.02819)
   \<and> getnum example_call ''heading'' = Inr 0 \<and> getnum example_call ''steering_angle'' = Inr 0
   \<and> getnum example2_call ''x'' = Inr 1.17885 \<and> getnum example2_call ''y'' = Inr (- 0.02819)
   \<and> getnum example2_call ''heading'' = Inr 0 \<and> getnum example2_call ''steering_angle'' = Inr (- 1)
   \<and> (30::real) = \<bar>0 - ideal_steering 1.17885 (- 0.02819) 0 (get_racing_track ! 5)\<bar>
   \<and> (31::real) = \<bar>- 1 - ideal_steering 1.17885 (- 0.02819) 0 (get_racing_track2 ! 5)\<bar>
   \<and> score_steering example_call (get_racing_track ! 5) = Inr reward_min
   \<and> (\<exists>w w'. score_steering2 example_call (get_racing_track ! 5) = Inr w
         \<and> score_steering2 example2_call (get_racing_track2 ! 5) = Inr w' \<and> w' < w)"
proof -
  have d: "(30::real) = \<bar>0 - ideal_steering 1.17885 (- 0.02819) 0 (get_racing_track ! 5)\<bar>"
    unfolding example_ideal by simp
  have d': "(31::real) = \<bar>- 1 - ideal_steering 1.17885 (- 0.02819) 0 (get_racing_track2 ! 5)\<bar>"
    unfolding example2_ideal by simp
  from steering_score_shape [OF example_keys(1,2,3,4) example2_keys(1,2,3,4) d d']
  obtain s s' w w' where
    "score_steering example_call (get_racing_track ! 5) = Inr s"
    "score_steering2 example_call (get_racing_track ! 5) = Inr w"
    "score_steering2 example2_call (get_racing_track2 ! 5) = Inr w'"
    "(30::real) \<le> 30 \<longrightarrow> s = reward_min"
    "(3::real) \<le> 30 \<and> (30::real) < 31 \<and> (31::real) \<le> 32.997 \<longrightarrow> w' < w"
    by blast
  then have "score_steering example_call (get_racing_track ! 5) = Inr reward_min"
    and "\<exists>w w'. score_steering2 example_call (get_racing_track ! 5) = Inr w
         \<and> score_steering2 example2_call (get_racing_track2 ! 5) = Inr w' \<and> w' < w"
    by auto
  with d d' example_keys(1,2,3,4) example2_keys(1,2,3,4) show ?thesis by blast
qed

text \<open>
  In the weighted variant, on the example call (target waypoint 5, ideal steering 30), a
  steering of -1 is 31 degrees off and scores 2/3, not the minimum, and a steering of 29 is
  one degree off and already scores the maximum.
\<close>

theorem steering_score_weighted_variant:
  "draw_ray example2_call get_racing_track2 1 = Inr (5, 0)
   \<and> \<bar>- 1 - ideal_steering 1.17885 (- 0.02819) 0 (get_racing_track2 ! 5)\<bar> = 31
   \<and> score_steering2 example2_call (get_racing_track2 ! 5) = Inr (2 / 3)
   \<and> \<not> (2 / 3 = reward_min2)
   \<and> \<bar>29 - ideal_steering 1.17885 (- 0.02819) 0 (get_racing_track2 ! 5)\<bar> = 1
   \<and> score_steering2 near_ideal_call (get_racing_track2 ! 5) = Inr reward_max2"
proof -
  have a: "score_steering2 example2_call (get_racing_track2 ! 5) = Inr (2 / 3)"
    using score_steering2_curve [OF example2_keys(1,2,3,4), of "get_racing_track2 ! 5"]
    unfolding example2_ideal by simp
  have b: "score_steering2 near_ideal_call (get_racing_track2 ! 5) = Inr reward_max2"
    using score_steering2_curve [OF near_ideal_keys, of "get_racing_track2 ! 5"]
    unfolding example2_ideal by (simp add: reward_max2_val)
  show ?thesis
    using a b example2_draw_ray unfolding example2_ideal by (simp add: reward_min2_def)
qed

section \<open>Missing and extra keys\<close>

lemma getnum_cases:
  obtains (missing) "p k = None" "getnum p k = Inl (KeyError k)"
        | (present) v where "p k \<noteq> None" "getnum p k = Inr v"
  by (cases "p k") (auto simp: getnum_def getitem_def)

lemma reward_function_no_x:
  "getnum p ''x'' = Inl e \<Longrightarrow> reward_function p lp = (Inl e, lp)"
  by (simp add: reward_function_def Let_def)

lemma reward_function_no_y:
  "getnum p ''x'' = Inr x \<Longrightarrow> getnum p ''y'' = Inl e \<Longrightarrow> reward_function p lp = (Inl e, lp)"
  by (simp add: reward_function_def Let_def)

lemma draw_ray_no_width:
  "getnum p ''x'' = Inr x \<Longrightarrow> getnum p ''y'' = Inr y \<Longrightarrow> getnum p ''track_width'' = Inl e \<Longrightarrow>
     draw_ray p waypoints sight = Inl e"
  by (simp add: draw_ray_def Let_def)

lemma reward_function_no_ray:
  "getnum p ''x'' = Inr x \<Longrightarrow> getnum p ''y'' = Inr y \<Longrightarrow>
     draw_ray p get_racing_track (if y < - x then 0.25 else 0.5) = Inl e \<Longrightarrow>
     reward_function p lp = (Inl e, lp)"
  by (simp add: reward_function_def Let_def)

lemma score_steering_no_heading:
  "getnum p ''x'' = Inr x \<Longrightarrow> getnum p ''y'' = Inr y \<Longrightarrow> getnum p ''heading'' = Inl e \<Longrightarrow>
     score_steering p t = Inl e"
  by (simp add: score_steering_def Let_def)

lemma score_steering_no_steering:
  "getnum p ''x'' = Inr x \<Longrightarrow> getnum p ''y'' = Inr y \<Longrightarrow> getnum p ''heading'' = Inr h \<Longrightarrow>
     getnum p ''steering_angle'' = Inl e \<Longrightarrow> score_steering p t = Inl e"
  by (simp add: score_steering_def Let_def)

lemma score_speed_no_speed:
  "getnum p ''speed'' = Inl e \<Longrightarrow> score_speed p t = Inl e"
  by (simp add: score_speed_def)

lemma score_progress_no_progress:
  "getnum p ''progress'' = Inl e \<Longrightarrow> score_progress p lp = (Inl e, lp)"
  by (simp add: score_progress_def)

lemma score_steering2_no_heading:
  "getnum p ''x'' = Inr x \<Longrightarrow> getnum p ''y'' = Inr y \<Longrightarrow> getnum p ''heading'' = Inl e \<Longrightarrow>
     score_steering2 p t = Inl e"
  by (simp add: score_steering2_def Let_def)

lemma score_steering2_no_steering:
  "getnum p ''x'' = Inr x \<Longrightarrow> getnum p ''y'' = Inr y \<Longrightarrow> getnum p ''heading'' = Inr h \<Longrightarrow>
     getnum p ''steering_angle'' = Inl e \<Longrightarrow> score_steering2 p t = Inl e"
  by (simp add: score_steering2_def Let_def)

lemma score_speed2_no_speed:
  "getnum p ''speed'' = Inl e \<Longrightarrow> score_speed2 p = Inl e"
  by (simp add: score_speed2_def)

lemma score_progress2_no_progress:
  "getnum p ''progress'' = Inl e \<Longrightarrow> score_progress2 p = Inl e"
  by (simp add: score_progress2_def)

lemma reward_function2_no_flag:
  "p ''is_offtrack'' = None \<Longrightarrow> reward_function2 p = Inl (KeyError ''is_offtrack'')"
  by (simp add: reward_function2_def getitem_def)

lemma reward_function2_no_x:
  "getitem p ''is_offtrack'' = Inr off \<Longrightarrow> \<not> py_truthy off \<Longrightarrow> getnum p ''x'' = Inl e \<Longrightarrow>
     reward_function2 p = Inl e"
  by (simp add: reward_function2_def Let_def)

lemma reward_function2_no_y:
  "getitem p ''is_offtrack'' = Inr off \<Longrightarrow> \<not> py_truthy off \<Longrightarrow> getnum p ''x'' = Inr x \<Longrightarrow>
     getnum p ''y'' = Inl e \<Longrightarrow> reward_function2 p = Inl e"
  by (simp add: reward_function2_def Let_def)

lemma reward_function2_no_ray:
  "getitem p ''is_offtrack'' = Inr off \<Longrightarrow> \<not> py_truthy off \<Longrightarrow> getnum p ''x'' = Inr x \<Longrightarrow>
     getnum p ''y'' = Inr y \<Longrightarrow>
     draw_ray p get_racing_track2 (if y < - x then 0.5 else 1) = Inl e \<Longrightarrow>
     reward_function2 p = Inl e"
  by (simp add: reward_function2_def Let_def)

lemma key_errorI: "k \<in> set required_keys \<Longrightarrow> p k = None \<Longrightarrow> key_error p (KeyError k)"
  by (auto simp: key_error_def)

lemma required_keys_mem:
  "''x'' \<in> set required_keys" "''y'' \<in> set required_keys" "''heading'' \<in> set required_keys"
  "''steering_angle'' \<in> set required_keys" "''speed'' \<in> set required_keys"
  "''track_width'' \<in> set required_keys" "''progress'' \<in> set required_keys"
  by (simp_all add: required_keys_def)

lemma all_present_telemetry:
  assumes "p ''x'' \<noteq> None" and "p ''y'' \<noteq> None" and "p ''heading'' \<noteq> None"
    and "p ''steering_angle'' \<noteq> None" and "p ''speed'' \<noteq> None"
    and "p ''track_width'' \<noteq> None" and "p ''progress'' \<noteq> None"
  shows "telemetry p"
  using assms by (simp add: telemetry_def required_keys_def)

lemma reward_function_missing:
  assumes "\<not> telemetry p"
  shows "\<exists>e. reward_function p lp = (Inl e, lp)
           \<and> (key_error p e \<or> (e = ZeroDivisionError \<and> getnum p ''track_width'' = Inr 0))"
proof (cases p "''x''" rule: getnum_cases)
  case missing
  then show ?thesis
    using reward_function_no_x [of p _ lp] key_errorI [where p = p, OF required_keys_mem(1)] by blast
next
  case px: (present x)
  show ?thesis
  proof (cases p "''y''" rule: getnum_cases)
    case missing
    then show ?thesis
      using reward_function_no_y [OF px(2), of _ lp] key_errorI [where p = p, OF required_keys_mem(2)] by blast
  next
    case py: (present y)
    show ?thesis
    proof (cases p "''track_width''" rule: getnum_cases)
      case missing
      then show ?thesis
        using reward_function_no_ray [OF px(2) py(2) draw_ray_no_width [OF px(2) py(2)], of _ lp]
          key_errorI [where p = p, OF required_keys_mem(6)] by blast
    next
      case pw: (present tw)
      have ne: "get_racing_track \<noteq> []" using track_length by auto
      obtain t m where dr: "draw_ray p get_racing_track (if y < - x then 0.25 else 0.5) = Inr (t, m)"
        and t': "0 \<le> t" "t < int (length get_racing_track)"
        and m': "0 \<le> m" "m < int (length get_racing_track)"
        using draw_ray_valid [OF px(2) py(2) pw(2) ne, of "if y < - x then 0.25 else 0.5"] by blast
      have t: "0 \<le> t" "t < 120" and m: "0 \<le> m" "m < 120"
        using t' m' by (simp_all add: track_length)
      note stages = reward_function_stages [OF px(2) py(2) dr track_index [OF t] track_index [OF m], of lp]
      let ?tgt = "get_racing_track ! nat t" and ?near = "get_racing_track ! nat m"
      show ?thesis
      proof (cases p "''heading''" rule: getnum_cases)
        case missing
        have "reward_function p lp = (Inl (KeyError ''heading''), lp)"
          using stages
          by (simp only: score_steering_no_heading [OF px(2) py(2) missing(2)] sum.case)
        then show ?thesis
          using key_errorI [where p = p, OF required_keys_mem(3) missing(1)] by blast
      next
        case ph: (present h)
        show ?thesis
        proof (cases p "''steering_angle''" rule: getnum_cases)
          case missing
          have "reward_function p lp = (Inl (KeyError ''steering_angle''), lp)"
            using stages
            by (simp only: score_steering_no_steering [OF px(2) py(2) ph(2) missing(2)] sum.case)
          then show ?thesis
            using key_errorI [where p = p, OF required_keys_mem(4) missing(1)] by blast
        next
          case ps: (present st)
          obtain s1 where s1: "score_steering p ?tgt = Inr s1"
            using score_steering_bounds [OF px(2) py(2) ph(2) ps(2)] by blast
          show ?thesis
          proof (cases p "''speed''" rule: getnum_cases)
            case missing
            have "reward_function p lp = (Inl (KeyError ''speed''), lp)"
              using stages
              by (simp only: s1 score_speed_no_speed [OF missing(2)] sum.case)
            then show ?thesis
              using key_errorI [where p = p, OF required_keys_mem(5) missing(1)] by blast
          next
            case pv: (present sp)
            obtain s2 where s2: "score_speed p ?near = Inr s2"
              using score_speed_bounds [OF pv(2)] by blast
            show ?thesis
            proof (cases "tw = 0")
              case True
              then have "reward_function p lp = (Inl ZeroDivisionError, lp)"
                using reward_function_zero_width [OF px(2) py(2) ph(2) ps(2) pv(2)] pw(2) by simp
              then show ?thesis using True pw(2) by blast
            next
              case False
              obtain s3 where s3: "score_center p ?near = Inr s3"
                using score_center_bounds [OF pw(2) px(2) py(2) False] by blast
              show ?thesis
              proof (cases p "''progress''" rule: getnum_cases)
                case missing
                have "reward_function p lp = (Inl (KeyError ''progress''), lp)"
                  using stages
                  by (simp only: s1 s2 s3 score_progress_no_progress [OF missing(2)]
                        sum.case prod.case)
                then show ?thesis
                  using key_errorI [where p = p, OF required_keys_mem(7) missing(1)] by blast
              next
                case (present pr)
                have "telemetry p"
                  using px(1) py(1) ph(1) ps(1) pv(1) pw(1) present(1)
                  by (rule all_present_telemetry)
                with assms show ?thesis by simp
              qed
            qed
          qed
        qed
      qed
    qed
  qed
qed

lemma reward_function2_missing:
  assumes "\<not> telemetry p" and "p ''is_offtrack'' = Some off" and "\<not> py_truthy off"
  shows "\<exists>e. reward_function2 p = Inl e \<and> key_error p e"
proof -
  have off: "getitem p ''is_offtrack'' = Inr off" using assms(2) by (simp add: getitem_def)
  show ?thesis
  proof (cases p "''x''" rule: getnum_cases)
    case missing
    then show ?thesis
      using reward_function2_no_x [OF off assms(3)]
        key_errorI [where p = p, OF required_keys_mem(1)] by blast
  next
    case px: (present x)
    show ?thesis
    proof (cases p "''y''" rule: getnum_cases)
      case missing
      then show ?thesis
        using reward_function2_no_y [OF off assms(3) px(2)]
          key_errorI [where p = p, OF required_keys_mem(2)] by blast
    next
      case py: (present y)
      show ?thesis
      proof (cases p "''track_width''" rule: getnum_cases)
        case missing
        then show ?thesis
          using reward_function2_no_ray [OF off assms(3) px(2) py(2)
                  draw_ray_no_width [OF px(2) py(2)]]
            key_errorI [where p = p, OF required_keys_mem(6)] by blast
      next
        case pw: (present tw)
        have ne: "get_racing_track2 \<noteq> []" using track2_length by auto
        obtain t m where dr: "draw_ray p get_racing_track2 (if y < - x then 0.5 else 1) = Inr (t, m)"
          and t': "0 \<le> t" "t < int (length get_racing_track2)"
          and m': "0 \<le> m" "m < int (length get_racing_track2)"
          using draw_ray_valid [OF px(2) py(2) pw(2) ne, of "if y < - x then 0.5 else 1"] by blast
        have t: "0 \<le> t" "t < 121" and m: "0 \<le> m" "m < 121"
          using t' m' by (simp_all add: track2_length)
        note stages = reward_function2_stages [OF off assms(3) px(2) py(2) dr
                        track2_index [OF t] track2_index [OF m]]
        let ?tgt = "get_racing_track2 ! nat t" and ?near = "get_racing_track2 ! nat m"
        show ?thesis
        proof (cases p "''heading''" rule: getnum_cases)
          case missing
          have "reward_function2 p = Inl (KeyError ''heading'')"
            using stages
            by (simp only: score_steering2_no_heading [OF px(2) py(2) missing(2)] sum.case)
          then show ?thesis
            using key_errorI [where p = p, OF required_keys_mem(3) missing(1)] by blast
        next
          case ph: (present h)
          show ?thesis
          proof (cases p "''steering_angle''" rule: getnum_cases)
            case missing
            have "reward_function2 p = Inl (KeyError ''steering_angle'')"
              using stages
              by (simp only: score_steering2_no_steering [OF px(2) py(2) ph(2) missing(2)] sum.case)
            then show ?thesis
              using key_errorI [where p = p, OF required_keys_mem(4) missing(1)] by blast
          next
            case ps: (present st)
            obtain s1 where s1: "score_steering2 p ?tgt = Inr s1"
              using score_steering2_value [OF px(2) py(2) ph(2) ps(2)] by blast
            show ?thesis
            proof (cases p "''speed''" rule: getnum_cases)
              case missing
              have "reward_function2 p = Inl (KeyError ''speed'')"
                using stages
                by (simp only: s1 score_speed2_no_speed [OF missing(2)] sum.case)
              then show ?thesis
                using key_errorI [where p = p, OF required_keys_mem(5) missing(1)] by blast
            next
              case pv: (present sp)
              obtain s2 where s2: "score_speed2 p = Inr s2"
                using score_speed2_Inr [OF pv(2)] by blast
              obtain s3 where s3: "score_center2 p ?near = Inr s3"
                using score_center2_Inr [OF px(2) py(2)] by blast
              show ?thesis
              proof (cases p "''progress''" rule: getnum_cases)
                case missing
                have "reward_function2 p = Inl (KeyError ''progress'')"
                  using stages
                  by (simp only: s1 s2 s3 score_progress2_no_progress [OF missing(2)] sum.case)
                then show ?thesis
                  using key_errorI [where p = p, OF required_keys_mem(7) missing(1)] by blast
              next
                case (present pr)
                have "telemetry p"
                  using px(1) py(1) ph(1) ps(1) pv(1) pw(1) present(1)
                  by (rule all_present_telemetry)
                with assms(1) show ?thesis by simp
              qed
            qed
          qed
        qed
      qed
    qed
  qed
qed

lemma same_keys_getnum:
  assumes "\<forall>j \<in> set required_keys. q j = p j"
  shows "getnum q ''x'' = getnum p ''x''" "getnum q ''y'' = getnum p ''y''"
    "getnum q ''heading'' = getnum p ''heading''"
    "getnum q ''steering_angle'' = getnum p ''steering_angle''"
    "getnum q ''speed'' = getnum p ''speed''"
    "getnum q ''track_width'' = getnum p ''track_width''"
    "getnum q ''progress'' = getnum p ''progress''"
  using assms by (simp_all add: required_keys_def getnum_def getitem_def)

lemma same_keys_reward_function:
  assumes "\<forall>j \<in> set required_keys. q j = p j"
  shows "reward_function q lp = reward_function p lp"
proof -
  note k = same_keys_getnum [OF assms]
  have dr: "\<And>w s. draw_ray q (w :: waypoint list) s = draw_ray p w s"
    by (simp only: draw_ray_def k)
  have s1: "\<And>t :: waypoint. score_steering q t = score_steering p t"
    by (simp only: score_steering_def k)
  have s2: "\<And>t. score_speed q t = score_speed p t"
    by (simp only: score_speed_def k)
  have s3: "\<And>t :: waypoint. score_center q t = score_center p t"
    by (simp only: score_center_def k)
  have s4: "score_progress q lp = score_progress p lp"
    by (simp only: score_progress_def k)
  have s5: "score_speed_steering q = score_speed_steering p"
    by (simp only: score_speed_steering_def k)
  show ?thesis
    by (simp only: reward_function_def k dr s1 s2 s3 s4 s5)
qed

lemma same_keys_reward_function2:
  assumes "\<forall>j \<in> set required_keys. q j = p j" and "q ''is_offtrack'' = p ''is_offtrack''"
  shows "reward_function2 q = reward_function2 p"
proof -
  note k = same_keys_getnum [OF assms(1)]
  have off: "getitem q ''is_offtrack'' = getitem p ''is_offtrack''"
    using assms(2) by (simp add: getitem_def)
  have dr: "\<And>w s. draw_ray q (w :: coor list) s = draw_ray p w s"
    by (simp only: draw_ray_def k)
  have s1: "\<And>t :: coor. score_steering2 q t = score_steering2 p t"
    by (simp only: score_steering2_def k)
  have s2: "score_speed2 q = score_speed2 p"
    by (simp only: score_speed2_def k)
  have s3: "\<And>t :: coor. score_center2 q t = score_center2 p t"
    by (simp only: score_center2_def k)
  have s4: "score_progress2 q = score_progress2 p"
    by (simp only: score_progress2_def k)
  show ?thesis
    by (simp only: reward_function2_def k off dr s1 s2 s3 s4)
qed

text \<open>
  C9 (as amended): no default is substituted for a missing key. The additive variant raises
  on every mapping that lacks a required key, leaving \<open>last_progress\<close> as it was: Python's
  \<^verbatim>\<open>KeyError\<close> for a missing required key, or \<^verbatim>\<open>ZeroDivisionError\<close> when the track width is
  zero. The weighted variant raises \<^verbatim>\<open>KeyError\<close> for a missing \<^verbatim>\<open>is_offtrack\<close>, returns 0.001
  for a truthy one whatever else is missing, and raises \<^verbatim>\<open>KeyError\<close> for a missing required
  key otherwise. Two mappings that agree on the keys read get the same result, so other
  keys are ignored.
\<close>

theorem missing_key_raises:
  "(\<not> telemetry p \<longrightarrow>
      (\<exists>e. reward_function p lp = (Inl e, lp)
         \<and> (key_error p e \<or> (e = ZeroDivisionError \<and> getnum p ''track_width'' = Inr 0))))
   \<and> (p ''is_offtrack'' = None \<longrightarrow> reward_function2 p = Inl (KeyError ''is_offtrack''))
   \<and> (\<forall>off. p ''is_offtrack'' = Some off \<and> py_truthy off \<longrightarrow> reward_function2 p = Inr 0.001)
   \<and> (\<forall>off. \<not> telemetry p \<and> p ''is_offtrack'' = Some off \<and> \<not> py_truthy off \<longrightarrow>
         (\<exists>e. reward_function2 p = Inl e \<and> key_error p e))
   \<and> ((\<forall>j \<in> set required_keys. q j = p j) \<longrightarrow>
         reward_function q lp = reward_function p lp
       \<and> (q ''is_offtrack'' = p ''is_offtrack'' \<longrightarrow> reward_function2 q = reward_function2 p))"
proof -
  have a: "\<not> telemetry p \<longrightarrow>
      (\<exists>e. reward_function p lp = (Inl e, lp)
         \<and> (key_error p e \<or> (e = ZeroDivisionError \<and> getnum p ''track_width'' = Inr 0)))"
    using reward_function_missing [of p lp] by blast
  have b: "p ''is_offtrack'' = None \<longrightarrow> reward_function2 p = Inl (KeyError ''is_offtrack'')"
    using reward_function2_no_flag [of p] by blast
  have c: "\<forall>off. p ''is_offtrack'' = Some off \<and> py_truthy off \<longrightarrow> reward_function2 p = Inr 0.001"
    by (simp add: reward_function2_def getitem_def)
  have d: "\<forall>off. \<not> telemetry p \<and> p ''is_offtrack'' = Some off \<and> \<not> py_truthy off \<longrightarrow>
         (\<exists>e. reward_function2 p = Inl e \<and> key_error p e)"
    using reward_function2_missing [of p] by blast
  have e: "(\<forall>j \<in> set required_keys. q j = p j) \<longrightarrow>
         reward_function q lp = reward_function p lp
       \<and> (q ''is_offtrack'' = p ''is_offtrack'' \<longrightarrow> reward_function2 q = reward_function2 p)"
    using same_keys_reward_function [of q p lp] same_keys_reward_function2 [of q p] by blast
  from a b c d e show ?thesis by blast
qed

lemma first_call_missing: "\<not> telemetry first_call" "first_call ''x'' = None"
  "first_call ''is_offtrack'' = None"
  by (simp_all add: telemetry_def required_keys_def first_call_def)

lemma onroad_only_missing: "\<not> telemetry onroad_only" "onroad_only ''x'' = None"
  "onroad_only ''is_offtrack'' = Some (PyBool False)"
  by (simp_all add: telemetry_def required_keys_def onroad_only_def)

lemma offtrack_only_missing: "\<not> telemetry offtrack_only" "offtrack_only ''x'' = None"
  by (simp_all add: telemetry_def required_keys_def offtrack_only_def)

lemma extra_keys_same: "\<forall>j \<in> set required_keys. extra_keys_call j = example2_call j"
  "extra_keys_call ''is_offtrack'' = example2_call ''is_offtrack''"
  "extra_keys_call ''all_wheels_on_track'' = Some (PyBool True)"
  "example2_call ''all_wheels_on_track'' = None"
  by (simp_all add: required_keys_def extra_keys_call_def example2_call_def)

theorem missing_key_raises_witness:
  "\<not> telemetry first_call \<and> first_call ''x'' = None \<and> first_call ''is_offtrack'' = None
   \<and> reward_function first_call 0 = (Inl (KeyError ''x''), 0)
   \<and> reward_function2 first_call = Inl (KeyError ''is_offtrack'')
   \<and> \<not> telemetry onroad_only \<and> onroad_only ''is_offtrack'' = Some (PyBool False)
   \<and> \<not> py_truthy (PyBool False)
   \<and> reward_function2 onroad_only = Inl (KeyError ''x'')
   \<and> extra_keys_call ''all_wheels_on_track'' = Some (PyBool True)
   \<and> example2_call ''all_wheels_on_track'' = None
   \<and> reward_function extra_keys_call 0 = reward_function example2_call 0
   \<and> reward_function2 extra_keys_call = reward_function2 example2_call"
proof -
  have x: "getnum first_call ''x'' = Inl (KeyError ''x'')"
    using first_call_missing(2) by (rule getnum_None)
  have r1: "reward_function first_call 0 = (Inl (KeyError ''x''), 0)"
    using x by (rule reward_function_no_x)
  have x2: "getnum onroad_only ''x'' = Inl (KeyError ''x'')"
    using onroad_only_missing(2) by (rule getnum_None)
  have flag: "getitem onroad_only ''is_offtrack'' = Inr (PyBool False)"
    by (simp add: getitem_def onroad_only_def)
  have falsy: "\<not> py_truthy (PyBool False)" by simp
  have r2: "reward_function2 onroad_only = Inl (KeyError ''x'')"
    using flag falsy x2 by (rule reward_function2_no_x)
  from missing_key_raises [of first_call 0 first_call] first_call_missing
  have r3: "reward_function2 first_call = Inl (KeyError ''is_offtrack'')" by blast
  from missing_key_raises [of example2_call 0 extra_keys_call] extra_keys_same
  have r4: "reward_function extra_keys_call 0 = reward_function example2_call 0"
    "reward_function2 extra_keys_call = reward_function2 example2_call" by blast+
  show ?thesis
    using first_call_missing onroad_only_missing(1,3) extra_keys_same(3,4) r1 r2 r3 r4 by simp
qed

text \<open>
  A mapping that holds only a true off-track flag lacks every required key, and the weighted
  variant returns a reward for it.
\<close>

theorem missing_keys_offtrack_returns:
  "\<not> telemetry offtrack_only \<and> offtrack_only ''x'' = None
   \<and> reward_function2 offtrack_only = Inr 0.001"
proof -
  have "reward_function2 offtrack_only = Inr 0.001"
    by (simp add: reward_function2_def getitem_def offtrack_only_def)
  with offtrack_only_missing show ?thesis by simp
qed

section \<open>Sequences of calls\<close>

lemma example_progress_from:
  "score_progress example_call lp = (Inr (max ((1 - lp) * reward_max) reward_min), 1)"
  using example_keys(7) by (rule score_progress_Inr)

lemma example_reward_from:
  "reward_function example_call lp = (Inr (2.003 + max ((1 - lp) * reward_max) reward_min), 1)"
proof -
  have dr: "draw_ray example_call get_racing_track
              (if - 0.02819 < - (1.17885::real) then 0.25 else 0.5) = Inr (5, 0)"
    using example_draw_ray by simp
  have i5: "py_index get_racing_track 5 = Inr (get_racing_track ! 5)"
    using track_index [of 5] by simp
  have i0: "py_index get_racing_track 0 = Inr (get_racing_track ! 0)"
    using track_index [of 0] by simp
  show ?thesis
    using reward_function_stages [OF example_keys(1,2) dr i5 i0, of lp]
    by (simp add: example_sub_scores(1,2,3,5) example_progress_from)
qed

lemma example_twice: "calls 0 [example_call, example_call] = [Inr 7.003, Inr 2.004]"
  by (simp add: example_reward_from reward_max_def reward_min_def)

section \<open>The weighted variant and the module's variables\<close>

lemma stateless_no_global: "stateless_on names (no_global r)"
  by (simp add: stateless_on_def no_global_def)

lemma stateless_read_global: "n \<in> names \<Longrightarrow> stateless_on names (read_global n)"
  by (auto simp: stateless_on_def read_global_def split: option.splits)

lemma stateless_thenM:
  assumes "stateless_on names m" and "\<And>v. stateless_on names (f v)"
  shows "stateless_on names (thenM m f)"
proof -
  have frame: "snd (thenM m f g) = g" for g
  proof (cases "m g")
    case (Pair r g1)
    then have "g1 = g" using assms(1) by (auto simp: stateless_on_def dest: spec [of _ g])
    with Pair show ?thesis
      using assms(2) by (cases r) (auto simp: thenM_def stateless_on_def)
  qed
  have same: "fst (thenM m f g') = fst (thenM m f g)" if agree: "\<forall>n \<in> names. g' n = g n" for g g'
  proof -
    have m1: "snd (m g) = g" "snd (m g') = g'" using assms(1) by (simp_all add: stateless_on_def)
    have m2: "fst (m g') = fst (m g)" using assms(1) agree by (simp add: stateless_on_def)
    obtain r where r: "m g = (r, g)" "m g' = (r, g')"
      using m1 m2 by (metis prod.collapse)
    show ?thesis
    proof (cases r)
      case (Inl e)
      with r show ?thesis by (simp add: thenM_def)
    next
      case (Inr v)
      have "fst (f v g') = fst (f v g)" using assms(2) [of v] agree by (simp add: stateless_on_def)
      with r Inr show ?thesis by (simp add: thenM_def)
    qed
  qed
  show ?thesis using frame same by (simp add: stateless_on_def)
qed

lemma stateless_if:
  "stateless_on names a \<Longrightarrow> stateless_on names b \<Longrightarrow> stateless_on names (if c then a else b)"
  by simp

lemma stateless_case_prod:
  "(\<And>a b. stateless_on names (f a b)) \<Longrightarrow> stateless_on names (case_prod f x)"
  by (cases x) simp

lemmas stateless_intros =
  stateless_thenM stateless_no_global stateless_read_global stateless_if stateless_case_prod

lemma stateless_score_steering2: "stateless_on {''reward_max'', ''reward_min''} (score_steering2_m p t)"
  unfolding score_steering2_m_def Let_def by (intro stateless_intros) simp_all

lemma stateless_score_speed2: "stateless_on {''reward_max'', ''reward_min''} (score_speed2_m p)"
  unfolding score_speed2_m_def Let_def by (intro stateless_intros) simp_all

lemma stateless_score_center2: "stateless_on {''reward_max'', ''reward_min''} (score_center2_m p t)"
  unfolding score_center2_m_def Let_def by (intro stateless_intros) simp_all

lemma stateless_score_progress2: "stateless_on {''reward_max'', ''reward_min''} (score_progress2_m p)"
  unfolding score_progress2_m_def Let_def by (intro stateless_intros) simp_all

lemma stateless_reward_function2:
  "stateless_on {''reward_max'', ''reward_min''} (reward_function2_m p)"
  unfolding reward_function2_m_def Let_def
  by (intro stateless_intros stateless_score_steering2 stateless_score_speed2
        stateless_score_center2 stateless_score_progress2) simp_all

lemma thenM_no_global:
  "thenM (no_global r) f g = (case r of Inl e \<Rightarrow> (Inl e, g) | Inr v \<Rightarrow> f v g)"
  by (simp add: thenM_def no_global_def split: sum.splits)

lemma thenM_read_module2:
  "thenM (read_global ''reward_max'') f module2 = f 10 module2"
  "thenM (read_global ''reward_min'') f module2 = f 0.001 module2"
  by (simp_all add: thenM_def read_global_def module2_def)

lemma thenM_known:
  "m g = (r, g) \<Longrightarrow> thenM m f g = (case r of Inl e \<Rightarrow> (Inl e, g) | Inr v \<Rightarrow> f v g)"
  by (simp add: thenM_def split: sum.splits)

lemma score_steering2_m_module2: "score_steering2_m p t module2 = (score_steering2 p t, module2)"
  by (simp add: score_steering2_m_def score_steering2_def Let_def thenM_no_global
        thenM_read_module2 no_global_def thenE_def reward_max2_def reward_min2_def
      split: sum.splits)

lemma score_speed2_m_module2: "score_speed2_m p module2 = (score_speed2 p, module2)"
  by (simp add: score_speed2_m_def score_speed2_def Let_def thenM_no_global
        thenM_read_module2 no_global_def thenE_def reward_max2_def reward_min2_def
      split: sum.splits)

lemma score_center2_m_module2: "score_center2_m p t module2 = (score_center2 p t, module2)"
  by (simp add: score_center2_m_def score_center2_def Let_def thenM_no_global
        thenM_read_module2 no_global_def thenE_def reward_max2_def reward_min2_def
      split: sum.splits)

lemma score_progress2_m_module2: "score_progress2_m p module2 = (score_progress2 p, module2)"
  by (simp add: score_progress2_m_def score_progress2_def Let_def thenM_no_global
        thenM_read_module2 no_global_def thenE_def reward_max2_def reward_min2_def
      split: sum.splits)

lemma thenM_sub_scores_module2:
  "thenM (score_steering2_m p t) f module2 =
     (case score_steering2 p t of Inl e \<Rightarrow> (Inl e, module2) | Inr v \<Rightarrow> f v module2)"
  "thenM (score_speed2_m p) f module2 =
     (case score_speed2 p of Inl e \<Rightarrow> (Inl e, module2) | Inr v \<Rightarrow> f v module2)"
  "thenM (score_center2_m p t) f module2 =
     (case score_center2 p t of Inl e \<Rightarrow> (Inl e, module2) | Inr v \<Rightarrow> f v module2)"
  "thenM (score_progress2_m p) f module2 =
     (case score_progress2 p of Inl e \<Rightarrow> (Inl e, module2) | Inr v \<Rightarrow> f v module2)"
  by (simp_all add: thenM_def score_steering2_m_module2 score_speed2_m_module2
        score_center2_m_module2 score_progress2_m_module2 split: sum.splits)

lemma reward_function2_m_module2: "reward_function2_m p module2 = (reward_function2 p, module2)"
  by (simp add: reward_function2_m_def reward_function2_def Let_def thenM_no_global
        thenM_read_module2 no_global_def thenE_def reward_max2_def reward_min2_def
        thenM_sub_scores_module2
      split: sum.splits prod.splits)

lemma reward_function2_m_frame: "snd (reward_function2_m p g) = g"
  using stateless_reward_function2 [of p] by (simp add: stateless_on_def)

lemma reward_function2_m_reads:
  assumes "g' ''reward_max'' = g ''reward_max''" and "g' ''reward_min'' = g ''reward_min''"
  shows "fst (reward_function2_m p g') = fst (reward_function2_m p g)"
proof -
  have "\<forall>n \<in> {''reward_max'', ''reward_min''}. g' n = g n" using assms by simp
  then show ?thesis using stateless_reward_function2 [of p] unfolding stateless_on_def by blast
qed

lemma calls2_nth: "i < length ps \<Longrightarrow> calls2 g ps ! i = fst (reward_function2_m (ps ! i) g)"
proof (induction ps arbitrary: i)
  case Nil
  then show ?case by simp
next
  case (Cons p ps)
  obtain r where r: "reward_function2_m p g = (r, g)"
    using reward_function2_m_frame [of p g] by (metis prod.collapse)
  show ?case
  proof (cases i)
    case 0
    with r show ?thesis by simp
  next
    case (Suc k)
    with Cons r show ?thesis by simp
  qed
qed

text \<open>
  C10: \<^verbatim>\<open>reward_function\<close> of \<^verbatim>\<open>carthing2.py\<close> leaves the module's variables as they were, and
  its result depends on no module variable but the constants \<^verbatim>\<open>reward_max\<close> and \<^verbatim>\<open>reward_min\<close>;
  with these as the module sets them it is the function \<open>reward_function2\<close> of the mapping
  alone. So in a sequence of calls every reward is that of the call's own mapping, and two
  calls with equal mappings, in the same or in different sequences, return equal rewards.
  The additive variant does not: the example call moves \<open>last_progress\<close> from 0 to 1, and
  made twice it is rewarded 7.003 and then 2.004.
\<close>

theorem weighted_variant_stateless:
  "snd (reward_function2_m p g) = g
   \<and> (g' ''reward_max'' = g ''reward_max'' \<and> g' ''reward_min'' = g ''reward_min'' \<longrightarrow>
        fst (reward_function2_m p g') = fst (reward_function2_m p g))
   \<and> reward_function2_m p module2 = (reward_function2 p, module2)
   \<and> (i < length ps \<longrightarrow> calls2 g ps ! i = fst (reward_function2_m (ps ! i) g))
   \<and> (i < length ps \<and> j < length qs \<and> ps ! i = qs ! j \<longrightarrow> calls2 g ps ! i = calls2 g qs ! j)
   \<and> reward_function example_call 0 = (Inr 7.003, 1)
   \<and> calls 0 [example_call, example_call] = [Inr 7.003, Inr 2.004]"
proof -
  have same: "calls2 g ps ! i = calls2 g qs ! j"
    if "i < length ps" "j < length qs" "ps ! i = qs ! j"
    using that by (simp add: calls2_nth)
  show ?thesis
    using reward_function2_m_frame [of p g] reward_function2_m_reads [of g' g p]
      reward_function2_m_module2 [of p] calls2_nth [of i ps g] same example_reward example_twice
    by blast
qed

theorem weighted_variant_stateless_witness:
  "module2_with_progress ''reward_max'' = module2 ''reward_max''
   \<and> module2_with_progress ''reward_min'' = module2 ''reward_min''
   \<and> module2_with_progress ''last_progress'' = Some (PyNum 50)
   \<and> module2 ''last_progress'' = None
   \<and> fst (reward_function2_m example2_call module2_with_progress) = reward_function2 example2_call
   \<and> snd (reward_function2_m example2_call module2_with_progress) = module2_with_progress
   \<and> (0::nat) < length [example2_call, offtrack_only, example2_call]
   \<and> (2::nat) < length [example2_call, offtrack_only, example2_call]
   \<and> calls2 module2 [example2_call, offtrack_only, example2_call] ! 0
       = calls2 module2 [example2_call, offtrack_only, example2_call] ! 2
   \<and> calls2 module2 [example2_call, offtrack_only, example2_call] ! 1 = Inr 0.001"
proof -
  let ?ps = "[example2_call, offtrack_only, example2_call]"
  have vars: "module2_with_progress ''reward_max'' = module2 ''reward_max''"
    "module2_with_progress ''reward_min'' = module2 ''reward_min''"
    "module2_with_progress ''last_progress'' = Some (PyNum 50)"
    "module2 ''last_progress'' = None"
    by (simp_all add: module2_with_progress_def module2_def)
  have off: "reward_function2 offtrack_only = Inr 0.001"
    by (simp add: reward_function2_def getitem_def offtrack_only_def)
  have len: "0 < length ?ps" "1 < length ?ps" "2 < length ?ps" "?ps ! 0 = ?ps ! 2"
    "?ps ! 1 = offtrack_only"
    by simp_all
  note inst = weighted_variant_stateless [of example2_call module2 module2_with_progress 0 ?ps 2 ?ps]
  have m: "reward_function2_m example2_call module2 = (reward_function2 example2_call, module2)"
    using inst by blast
  have "fst (reward_function2_m example2_call module2_with_progress)
          = fst (reward_function2_m example2_call module2)"
    using inst vars(1,2) by blast
  then have a: "fst (reward_function2_m example2_call module2_with_progress)
                  = reward_function2 example2_call"
    by (simp only: m fst_conv)
  have b: "calls2 module2 ?ps ! 0 = calls2 module2 ?ps ! 2"
    using inst len by blast
  have c: "snd (reward_function2_m example2_call module2_with_progress) = module2_with_progress"
    using weighted_variant_stateless [of example2_call module2_with_progress module2 1 ?ps 1 ?ps]
    by blast
  note inst1 = weighted_variant_stateless [of offtrack_only module2 module2 1 ?ps 1 ?ps]
  have "calls2 module2 ?ps ! 1 = fst (reward_function2_m (?ps ! 1) module2)"
    using inst1 len(2) by blast
  moreover have "reward_function2_m offtrack_only module2 = (reward_function2 offtrack_only, module2)"
    using inst1 by blast
  ultimately have d: "calls2 module2 ?ps ! 1 = Inr 0.001"
    by (simp only: len(5) off fst_conv)
  show ?thesis using vars a b c d len(1,3) by blast
qed

end
